theory Spec2Isabelle
  imports Complex_Main "HOL-Library.Sublist" "HOL-Library.Multiset" "HOL-Library.Log_Nat"
begin

section \<open>Strings as Python uses them\<close>

text \<open>
  A Python \<open>str\<close> is modelled as a \<open>string\<close>: a list of characters, each a code point
  below 256 (the ASCII characters and the Latin-1 supplement). On these code points
  \<open>str.lower\<close> and \<open>str.upper\<close> change the 26 ASCII letters and the 30 letters with a
  case in the supplement; \<open>upper\<close> writes the sharp s (0xDF) as "SS". The capitals of
  the micro sign (0xB5) and of the y with diaeresis (0xFF) lie above 255; the model leaves
  these two characters as they are. The whitespace of \<open>str.strip\<close>, \<open>str.split\<close> and the
  regular expression class \<open>\s\<close> is that of CPython: tab, line feed, vertical tab, form
  feed, carriage return, the four separators 0x1C to 0x1F, the space, the next-line
  control 0x85 and the no-break space 0xA0.
\<close>

definition lower_letters :: string where
  "lower_letters = ''abcdefghijklmnopqrstuvwxyz''"

definition upper_letters :: string where
  "upper_letters = ''ABCDEFGHIJKLMNOPQRSTUVWXYZ''"

definition digit_chars :: string where
  "digit_chars = ''0123456789''"

text \<open>The capital letters of the Latin-1 supplement and, in the same order, their small letters.\<close>

definition latin1_upper :: string where
  "latin1_upper =
     [CHR 0xC0, CHR 0xC1, CHR 0xC2, CHR 0xC3, CHR 0xC4, CHR 0xC5, CHR 0xC6, CHR 0xC7,
      CHR 0xC8, CHR 0xC9, CHR 0xCA, CHR 0xCB, CHR 0xCC, CHR 0xCD, CHR 0xCE, CHR 0xCF,
      CHR 0xD0, CHR 0xD1, CHR 0xD2, CHR 0xD3, CHR 0xD4, CHR 0xD5, CHR 0xD6, CHR 0xD8,
      CHR 0xD9, CHR 0xDA, CHR 0xDB, CHR 0xDC, CHR 0xDD, CHR 0xDE]"

definition latin1_lower :: string where
  "latin1_lower =
     [CHR 0xE0, CHR 0xE1, CHR 0xE2, CHR 0xE3, CHR 0xE4, CHR 0xE5, CHR 0xE6, CHR 0xE7,
      CHR 0xE8, CHR 0xE9, CHR 0xEA, CHR 0xEB, CHR 0xEC, CHR 0xED, CHR 0xEE, CHR 0xEF,
      CHR 0xF0, CHR 0xF1, CHR 0xF2, CHR 0xF3, CHR 0xF4, CHR 0xF5, CHR 0xF6, CHR 0xF8,
      CHR 0xF9, CHR 0xFA, CHR 0xFB, CHR 0xFC, CHR 0xFD, CHR 0xFE]"

text \<open>
  The other characters of the supplement that are letters or numbers: the ordinal
  indicators, the superscript digits, the micro sign, the fractions, the sharp s and the
  y with diaeresis.
\<close>

definition latin1_other_alnum :: string where
  "latin1_other_alnum =
     [CHR 0xAA, CHR 0xB2, CHR 0xB3, CHR 0xB5, CHR 0xB9, CHR 0xBA, CHR 0xBC, CHR 0xBD,
      CHR 0xBE, CHR 0xDF, CHR 0xFF]"

definition lower_char :: "char \<Rightarrow> char" where
  "lower_char c =
     (case map_of (zip (upper_letters @ latin1_upper) (lower_letters @ latin1_lower)) c of
        Some d \<Rightarrow> d | None \<Rightarrow> c)"

definition upper_char :: "char \<Rightarrow> char" where
  "upper_char c =
     (case map_of (zip (lower_letters @ latin1_lower) (upper_letters @ latin1_upper)) c of
        Some d \<Rightarrow> d | None \<Rightarrow> c)"

text \<open>\<open>s.lower()\<close> and \<open>s.upper()\<close>.\<close>

definition lower :: "string \<Rightarrow> string" where
  "lower s = map lower_char s"

definition upper :: "string \<Rightarrow> string" where
  "upper s = concat (map (\<lambda>c. if c = CHR 0xDF then ''SS'' else [upper_char c]) s)"

definition is_space :: "char \<Rightarrow> bool" where
  "is_space c = (c \<in> set [CHR 0x09, CHR 0x0A, CHR 0x0B, CHR 0x0C, CHR 0x0D,
                            CHR 0x1C, CHR 0x1D, CHR 0x1E, CHR 0x1F, CHR 0x20,
                            CHR 0x85, CHR 0xA0])"

text \<open>\<open>s.strip()\<close>: whitespace is removed at both ends.\<close>

definition strip :: "string \<Rightarrow> string" where
  "strip s = rev (dropWhile is_space (rev (dropWhile is_space s)))"

text \<open>
  \<open>s.split()\<close> with no argument: the maximal runs of characters that are not whitespace,
  in order; \<open>w\<close> is the run being read.
\<close>

fun split_run :: "string \<Rightarrow> string \<Rightarrow> string list" where
  "split_run w [] = (if w = [] then [] else [w])"
| "split_run w (c # cs) =
     (if is_space c then (if w = [] then split_run [] cs else w # split_run [] cs)
      else split_run (w @ [c]) cs)"

definition split :: "string \<Rightarrow> string list" where
  "split s = split_run [] s"

text \<open>\<open>pat in s\<close>: \<open>pat\<close> occurs in \<open>s\<close> as a contiguous substring.\<close>

fun str_contains :: "string \<Rightarrow> string \<Rightarrow> bool" where
  "str_contains pat [] = (pat = [])"
| "str_contains pat (c # cs) = (prefix pat (c # cs) \<or> str_contains pat cs)"

text \<open>\<open>s.startswith(pat)\<close>.\<close>

definition startswith :: "string \<Rightarrow> string \<Rightarrow> bool" where
  "startswith s pat = prefix pat s"

text \<open>\<open>s.replace("&", "and")\<close> and \<open>s.replace(".", "")\<close>: the pattern is one character.\<close>

definition replace_char :: "char \<Rightarrow> string \<Rightarrow> string \<Rightarrow> string" where
  "replace_char x new s = concat (map (\<lambda>c. if c = x then new else [c]) s)"

section \<open>Regular expressions of \<open>normalize_team_name\<close>\<close>

text \<open>
  \<open>re.sub(r"[^a-z0-9\s]", " ", s)\<close> replaces, one character at a time, every character
  that is not a lowercase letter, a digit or whitespace.
\<close>

definition sub_punct :: "string \<Rightarrow> string" where
  "sub_punct s =
     map (\<lambda>c. if c \<in> set lower_letters \<or> c \<in> set digit_chars \<or> is_space c then c
               else CHR '' '') s"

text \<open>
  The word characters \<open>\w\<close>: the letters and numbers and the underscore. \<open>\b\<close> holds
  between two neighbours of which exactly one is a word character; the position before
  the first character and after the last one counts as not a word character.
\<close>

definition is_word_char :: "char \<Rightarrow> bool" where
  "is_word_char c =
     (c \<in> set lower_letters \<or> c \<in> set upper_letters \<or> c \<in> set digit_chars \<or> c = CHR ''_'' \<or>
      c \<in> set latin1_upper \<or> c \<in> set latin1_lower \<or> c \<in> set latin1_other_alnum)"

definition word_boundary :: "char option \<Rightarrow> char option \<Rightarrow> bool" where
  "word_boundary l r =
     ((case l of None \<Rightarrow> False | Some c \<Rightarrow> is_word_char c) \<noteq>
      (case r of None \<Rightarrow> False | Some c \<Rightarrow> is_word_char c))"

text \<open>
  The body of the pattern \<open>\b{word}\b\<close> is read by the regular expression compiler one
  character at a time: a letter stands for itself, and a dot stands for any character
  except the line feed. The noise list holds both kinds of entry.
\<close>

fun elem_matches :: "char \<Rightarrow> char \<Rightarrow> bool" where
  "elem_matches p c = (if p = CHR ''.'' then c \<noteq> CHR 0x0A else c = p)"

fun body_matches :: "string \<Rightarrow> string \<Rightarrow> bool" where
  "body_matches [] s = True"
| "body_matches (p # ps) [] = False"
| "body_matches (p # ps) (c # cs) = (elem_matches p c \<and> body_matches ps cs)"

fun nth_opt :: "'a list \<Rightarrow> nat \<Rightarrow> 'a option" where
  "nth_opt [] n = None"
| "nth_opt (x # xs) 0 = Some x"
| "nth_opt (x # xs) (Suc n) = nth_opt xs n"

text \<open>
  Does \<open>\b{word}\b\<close> match at the head of \<open>s\<close>, where \<open>prev\<close> is the character of the
  subject just before \<open>s\<close>?
\<close>

definition matches_at :: "string \<Rightarrow> char option \<Rightarrow> string \<Rightarrow> bool" where
  "matches_at word prev s =
     (word_boundary prev (nth_opt s 0) \<and> body_matches word s \<and>
      word_boundary (nth_opt s (length word - 1)) (nth_opt s (length word)))"

text \<open>
  \<open>re.sub(rf"\b{word}\b", " ", s)\<close>: the subject is read from the left; the leftmost
  match is replaced by one space and the search goes on after it, so that matches do not
  overlap. \<open>k\<close> is the number of characters of the current match still to be consumed.
  Boundaries are tested on the subject, not on the output.
\<close>

fun sub_scan :: "string \<Rightarrow> char option \<Rightarrow> nat \<Rightarrow> string \<Rightarrow> string" where
  "sub_scan word prev k [] = []"
| "sub_scan word prev (Suc k) (c # cs) = sub_scan word (Some c) k cs"
| "sub_scan word prev 0 (c # cs) =
     (if matches_at word prev (c # cs)
      then CHR '' '' # sub_scan word (Some c) (length word - 1) cs
      else c # sub_scan word (Some c) 0 cs)"

definition sub_word :: "string \<Rightarrow> string \<Rightarrow> string" where
  "sub_word word s = sub_scan word None 0 s"

text \<open>
  \<open>re.sub(r"\s+", " ", s)\<close>: every maximal run of whitespace becomes one space;
  \<open>in_run\<close> says that the previous character was whitespace.
\<close>

fun collapse_run :: "bool \<Rightarrow> string \<Rightarrow> string" where
  "collapse_run in_run [] = []"
| "collapse_run in_run (c # cs) =
     (if is_space c then (if in_run then collapse_run True cs else CHR '' '' # collapse_run True cs)
      else c # collapse_run False cs)"

definition collapse_spaces :: "string \<Rightarrow> string" where
  "collapse_spaces s = collapse_run False s"

section \<open>Team names\<close>

definition NOISE_WORDS :: "string list" where
  "NOISE_WORDS = [''university'', ''college'', ''state'', ''st'', ''st.'', ''the'', ''of'']"

text \<open>\<open>normalize_team_name\<close>; the loop over the noise words is a left fold.\<close>

definition normalize_team_name :: "string \<Rightarrow> string" where
  "normalize_team_name name =
     (if name = [] then []
      else let s = lower name;
               s = replace_char (CHR ''&'') ''and'' s;
               s = sub_punct s;
               s = foldl (\<lambda>s word. sub_word word s) s NOISE_WORDS
           in strip (collapse_spaces s))"

text \<open>\<open>teams_match_name\<close>: substring either way, or at least two common tokens.\<close>

definition teams_match_name :: "string \<Rightarrow> string \<Rightarrow> bool" where
  "teams_match_name ncaa_name odds_name =
     (let a = normalize_team_name ncaa_name;
          b = normalize_team_name odds_name
      in if a = [] \<or> b = [] then False
         else if str_contains a b \<or> str_contains b a then True
         else 2 \<le> card (set (split a) \<inter> set (split b)))"

section \<open>Numbers as Python has them\<close>

text \<open>
  A Python \<open>float\<close> is an IEEE 754 double: a finite value, an infinity or a NaN. The
  finite doubles are the reals \<open>m * 2 ^ q\<close> with \<open>m\<close> an integer below \<open>2 ^ 53\<close> in
  magnitude and \<open>q\<close> from -1074 to 971. The two zeros are one value here: nothing in this
  program tells them apart.
\<close>

datatype fl = Fin real | PInf | NInf | NaN

text \<open>The exceptions that leave a function of this program.\<close>

datatype exn = JSONDecodeError | TypeError | OverflowError

text \<open>The nearest integer, a tie going to the even one.\<close>

definition round_half_even :: "real \<Rightarrow> int" where
  "round_half_even q =
     (let f = \<lfloor>q\<rfloor>; r = q - of_int f
      in if r < 1 / 2 then f else if 1 / 2 < r then f + 1 else if even f then f else f + 1)"

text \<open>
  The binade of a positive real \<open>a\<close>: the integer \<open>e\<close> with \<open>2 ^ e \<le> a < 2 ^ (e + 1)\<close>,
  read off the bit length of the integer part of \<open>a\<close>, or of \<open>1 / a\<close> when \<open>a\<close> is
  below 1.
\<close>

definition binade :: "real \<Rightarrow> int" where
  "binade a = (if 1 \<le> a then bitlen \<lfloor>a\<rfloor> - 1 else - bitlen (\<lceil>1 / a\<rceil> - 1))"

text \<open>
  Rounding a real to a double, to nearest and ties to even, as every arithmetic
  operation on doubles does with its exact result. The doubles around \<open>x\<close> are the
  multiples of \<open>2 ^ e\<close>, where \<open>e\<close> is the binade of \<open>x\<close> less 52, and at least -1074; a
  result that leaves the exponent range is an infinity.
\<close>

definition round_double :: "real \<Rightarrow> fl" where
  "round_double x =
     (if x = 0 then Fin 0
      else let a = \<bar>x\<bar>;
               e = max (binade a) (- 1022) - 52;
               v = of_int (round_half_even (a * 2 powi (- e))) * 2 powi e
           in if 1024 \<le> binade v then (if x < 0 then NInf else PInf)
              else Fin (if x < 0 then - v else v))"

text \<open>Negation, addition, subtraction, halving, absolute value and comparison of doubles.\<close>

fun fl_neg :: "fl \<Rightarrow> fl" where
  "fl_neg (Fin x) = Fin (- x)"
| "fl_neg PInf = NInf"
| "fl_neg NInf = PInf"
| "fl_neg NaN = NaN"

fun fl_add :: "fl \<Rightarrow> fl \<Rightarrow> fl" where
  "fl_add (Fin x) (Fin y) = round_double (x + y)"
| "fl_add NaN y = NaN"
| "fl_add x NaN = NaN"
| "fl_add PInf NInf = NaN"
| "fl_add NInf PInf = NaN"
| "fl_add PInf y = PInf"
| "fl_add NInf y = NInf"
| "fl_add x PInf = PInf"
| "fl_add x NInf = NInf"

definition fl_sub :: "fl \<Rightarrow> fl \<Rightarrow> fl" where
  "fl_sub x y = fl_add x (fl_neg y)"

fun fl_half :: "fl \<Rightarrow> fl" where
  "fl_half (Fin x) = round_double (x / 2)"
| "fl_half y = y"

fun fl_abs :: "fl \<Rightarrow> fl" where
  "fl_abs (Fin x) = Fin \<bar>x\<bar>"
| "fl_abs PInf = PInf"
| "fl_abs NInf = PInf"
| "fl_abs NaN = NaN"

fun fl_less :: "fl \<Rightarrow> fl \<Rightarrow> bool" where
  "fl_less (Fin x) (Fin y) = (x < y)"
| "fl_less NaN y = False"
| "fl_less x NaN = False"
| "fl_less x NInf = False"
| "fl_less PInf y = False"
| "fl_less NInf y = True"
| "fl_less x PInf = True"

fun fl_le :: "fl \<Rightarrow> fl \<Rightarrow> bool" where
  "fl_le (Fin x) (Fin y) = (x \<le> y)"
| "fl_le NaN y = False"
| "fl_le x NaN = False"
| "fl_le NInf y = True"
| "fl_le x PInf = True"
| "fl_le x NInf = False"
| "fl_le PInf y = False"

text \<open>
  A number of Python is an \<open>int\<close>, of any size, or a \<open>float\<close>. An \<open>int\<close> that meets a
  \<open>float\<close> in an operation is converted first: it is rounded to a double, and one too
  large for a double raises \<open>OverflowError\<close>. Two \<open>int\<close>s are subtracted and added
  exactly.
\<close>

datatype pynum = PyInt int | PyFloat fl

definition int_to_float :: "int \<Rightarrow> exn + fl" where
  "int_to_float i =
     (case round_double (of_int i) of Fin x \<Rightarrow> Inr (Fin x) | _ \<Rightarrow> Inl OverflowError)"

fun as_float :: "pynum \<Rightarrow> exn + fl" where
  "as_float (PyInt i) = int_to_float i"
| "as_float (PyFloat x) = Inr x"

fun float_op :: "(fl \<Rightarrow> fl \<Rightarrow> fl) \<Rightarrow> pynum \<Rightarrow> pynum \<Rightarrow> exn + pynum" where
  "float_op f a b =
     (case as_float a of
        Inl e \<Rightarrow> Inl e
      | Inr x \<Rightarrow> (case as_float b of Inl e \<Rightarrow> Inl e | Inr y \<Rightarrow> Inr (PyFloat (f x y))))"

fun num_sub :: "pynum \<Rightarrow> pynum \<Rightarrow> exn + pynum" where
  "num_sub (PyInt a) (PyInt b) = Inr (PyInt (a - b))"
| "num_sub a b = float_op fl_sub a b"

fun num_add :: "pynum \<Rightarrow> pynum \<Rightarrow> exn + pynum" where
  "num_add (PyInt a) (PyInt b) = Inr (PyInt (a + b))"
| "num_add a b = float_op fl_add a b"

text \<open>\<open>a / 2.0\<close>: the number is taken as a \<open>float\<close> and halved.\<close>

definition num_half :: "pynum \<Rightarrow> exn + pynum" where
  "num_half a = (case as_float a of Inl e \<Rightarrow> Inl e | Inr x \<Rightarrow> Inr (PyFloat (fl_half x)))"

fun num_abs :: "pynum \<Rightarrow> pynum" where
  "num_abs (PyInt a) = PyInt \<bar>a\<bar>"
| "num_abs (PyFloat x) = PyFloat (fl_abs x)"

text \<open>
  A comparison of two numbers is exact, also between an \<open>int\<close> and a \<open>float\<close>: it
  compares the values and raises nothing.
\<close>

fun num_val :: "pynum \<Rightarrow> fl" where
  "num_val (PyInt a) = Fin (of_int a)"
| "num_val (PyFloat x) = x"

definition num_less :: "pynum \<Rightarrow> pynum \<Rightarrow> bool" where
  "num_less a b = fl_less (num_val a) (num_val b)"

definition num_le :: "pynum \<Rightarrow> pynum \<Rightarrow> bool" where
  "num_le a b = fl_le (num_val a) (num_val b)"

section \<open>First-half statistics from the play-by-play\<close>

definition SHOT_KEYWORDS :: "string list" where
  "SHOT_KEYWORDS =
     [''jumper'', ''jump shot'', ''jumpshot'', ''layup'', ''dunk'', ''hook shot'', ''hookshot'',
      ''tip-in'', ''tip in'', ''putback'', ''2 pointer'', ''two pointer'', ''2pt'',
      ''three pointer'', ''3 pointer'', ''3pt'', ''three-point'']"

definition TURNOVER_POSITIVE_PHRASES :: "string list" where
  "TURNOVER_POSITIVE_PHRASES =
     [''turnover by'', ''turnover on'', ''shot clock turnover'', ''team turnover'',
      ''lost ball turnover'', ''bad pass turnover'', ''traveling turnover'',
      ''offensive foul turnover'', ''backcourt turnover'', ''five second turnover'',
      ''three second turnover'']"

definition TURNOVER_IGNORE_PHRASES :: "string list" where
  "TURNOVER_IGNORE_PHRASES = [''points off turnovers'', ''turnover margin'', ''points via turnovers'']"

text \<open>
  One play of the feed. A field is \<open>None\<close> when the key is absent from the JSON object.
  A score that is present is a JSON integer or the JSON null, which Python reads as
  \<open>None\<close>.
\<close>

datatype json_score = JNull | JInt int

record play =
  eventDescription :: "string option"
  visitorText :: "string option"
  homeText :: "string option"
  homeScore :: "json_score option"
  visitorScore :: "json_score option"

text \<open>\<open>x or d\<close> on an optional string: an absent or empty \<open>x\<close> gives \<open>d\<close>.\<close>

definition or_str :: "string option \<Rightarrow> string \<Rightarrow> string" where
  "or_str x d = (case x of None \<Rightarrow> d | Some s \<Rightarrow> if s = [] then d else s)"

definition play_desc :: "play \<Rightarrow> string" where
  "play_desc p =
     (let desc = or_str (eventDescription p) []
      in if desc = [] then or_str (visitorText p) (or_str (homeText p) []) else desc)"

text \<open>The local variables of the loop of \<open>compute_first_half_stats_from_pbp\<close>.\<close>

record counters =
  fga :: nat
  fta :: nat
  turnovers :: nat
  last_home_score :: json_score
  last_visitor_score :: json_score

text \<open>
  The body of the loop, one block of the source after the other. The \<open>continue\<close> of the
  turnover block is the last statement of the body, so it skips nothing but the count
  of the turnover.
\<close>

definition play_step :: "counters \<Rightarrow> play \<Rightarrow> counters" where
  "play_step st0 p =
     (let desc_lower = lower (play_desc p);
          st1 = st0\<lparr>last_home_score := (case homeScore p of Some v \<Rightarrow> v | None \<Rightarrow> last_home_score st0),
                    last_visitor_score :=
                      (case visitorScore p of Some v \<Rightarrow> v | None \<Rightarrow> last_visitor_score st0)\<rparr>;
          st2 = (if str_contains ''free throw'' desc_lower then
                   (if str_contains ''both free throws'' desc_lower then st1\<lparr>fta := fta st1 + 2\<rparr>
                    else if str_contains ''all three free throws'' desc_lower \<or>
                            str_contains ''all 3 free throws'' desc_lower then st1\<lparr>fta := fta st1 + 3\<rparr>
                    else if str_contains ''three free throws'' desc_lower \<or>
                            str_contains ''3 free throws'' desc_lower then st1\<lparr>fta := fta st1 + 3\<rparr>
                    else if str_contains ''two free throws'' desc_lower \<or>
                            str_contains ''2 free throws'' desc_lower then st1\<lparr>fta := fta st1 + 2\<rparr>
                    else st1\<lparr>fta := fta st1 + 1\<rparr>)
                 else st1);
          has_shot_word = list_ex (\<lambda>k. str_contains k desc_lower) SHOT_KEYWORDS;
          st3 = (if has_shot_word \<and> \<not> str_contains ''free throw'' desc_lower
                 then st2\<lparr>fga := fga st2 + 1\<rparr> else st2)
      in if str_contains ''turnover'' desc_lower then
           (if list_ex (\<lambda>bad. str_contains bad desc_lower) TURNOVER_IGNORE_PHRASES then st3
            else
              (let positive_match = list_ex (\<lambda>ph. str_contains ph desc_lower) TURNOVER_POSITIVE_PHRASES;
                   starts_with_turnover = startswith (strip desc_lower) ''turnover''
               in if positive_match \<or> starts_with_turnover
                  then st3\<lparr>turnovers := turnovers st3 + 1\<rparr> else st3))
         else st3)"

definition init_counters :: counters where
  "init_counters =
     \<lparr>fga = 0, fta = 0, turnovers = 0, last_home_score = JInt 0, last_visitor_score = JInt 0\<rparr>"

text \<open>Decimal notation of an integer, as \<open>str\<close> and the f-strings write it.\<close>

fun str_nat :: "nat \<Rightarrow> string" where
  "str_nat n =
     (if n < 10 then [digit_chars ! n] else str_nat (n div 10) @ [digit_chars ! (n mod 10)])"

definition str_int :: "int \<Rightarrow> string" where
  "str_int i = (if i < 0 then CHR ''-'' # str_nat (nat (- i)) else str_nat (nat i))"

fun str_score :: "json_score \<Rightarrow> string" where
  "str_score JNull = ''None''"
| "str_score (JInt n) = str_int n"

text \<open>
  \<open>p.get("periodNumber")\<close> is a JSON number, a JSON string or absent; \<open>str\<close> of an
  absent value is \<open>"None"\<close>.
\<close>

datatype period_number = PNum int | PStr string | PAbsent

fun str_period_number :: "period_number \<Rightarrow> string" where
  "str_period_number (PNum n) = str_int n"
| "str_period_number (PStr s) = s"
| "str_period_number PAbsent = ''None''"

record period =
  periodNumber :: period_number
  playbyplayStats :: "play list"

text \<open>The play-by-play document; \<open>periods\<close> is empty when the key is absent.\<close>

record pbp_data =
  periods :: "period list"

text \<open>The dictionary that \<open>compute_first_half_stats_from_pbp\<close> returns.\<close>

record half_stats =
  stats_fga :: nat
  stats_fta :: nat
  stats_turnovers :: nat
  home_pts_1h :: json_score
  away_pts_1h :: json_score
  integer_value :: pynum

text \<open>\<open>fga + (fta / 2.0) + turnovers\<close>, the division first, then the two sums from the left.\<close>

definition integer_of_counters :: "counters \<Rightarrow> exn + pynum" where
  "integer_of_counters st =
     (case num_half (PyInt (int (fta st))) of
        Inl e \<Rightarrow> Inl e
      | Inr half \<Rightarrow>
          (case num_add (PyInt (int (fga st))) half of
             Inl e \<Rightarrow> Inl e
           | Inr s \<Rightarrow> num_add s (PyInt (int (turnovers st)))))"

text \<open>
  \<open>compute_first_half_stats_from_pbp\<close>: \<open>Inr None\<close> is the \<open>return None\<close> of a document
  without a first period.
\<close>

definition compute_first_half_stats_from_pbp :: "pbp_data \<Rightarrow> exn + half_stats option" where
  "compute_first_half_stats_from_pbp pbp =
     (if periods pbp = [] then Inr None
      else case find (\<lambda>p. str_period_number (periodNumber p) = ''1'') (periods pbp) of
             None \<Rightarrow> Inr None
           | Some first_half \<Rightarrow>
               (let st = foldl play_step init_counters (playbyplayStats first_half)
                in case integer_of_counters st of
                     Inl e \<Rightarrow> Inl e
                   | Inr iv \<Rightarrow>
                       Inr (Some \<lparr>stats_fga = fga st, stats_fta = fta st,
                                  stats_turnovers = turnovers st,
                                  home_pts_1h = last_home_score st,
                                  away_pts_1h = last_visitor_score st,
                                  integer_value = iv\<rparr>)))"

section \<open>Betting logic\<close>

record bet_eval =
  qualifies :: bool
  diff_line :: pynum
  score_diff :: pynum
  lean :: string

text \<open>
  \<open>evaluate_bet\<close> on numbers of Python. The two differences are computed first, in the
  order of the source; the comparisons follow.
\<close>

definition evaluate_bet :: "pynum \<Rightarrow> pynum \<Rightarrow> pynum \<Rightarrow> pynum \<Rightarrow> exn + bet_eval" where
  "evaluate_bet integer_val home_pts away_pts derived_line =
     (case num_sub integer_val derived_line of
        Inl e \<Rightarrow> Inl e
      | Inr d \<Rightarrow>
          (case num_sub home_pts away_pts of
             Inl e \<Rightarrow> Inl e
           | Inr s \<Rightarrow>
               (let dl = num_abs d;
                    sd = num_abs s
                in Inr \<lparr>qualifies = (num_le (PyInt 6) dl \<and> num_less sd (PyInt 11)),
                        diff_line = dl, score_diff = sd,
                        lean = (if num_less derived_line integer_val then ''OVER''
                                else if num_less integer_val derived_line then ''UNDER''
                                else ''NEUTRAL'')\<rparr>)))"

section \<open>Market events\<close>

definition BOOKMAKER_PRIORITY :: "string list" where
  "BOOKMAKER_PRIORITY =
     [''draftkings'', ''fanduel'', ''betmgm'', ''betonlineag'', ''pointsbetus'', ''caesars'',
      ''betrivers'', ''unibet_us'', ''wynnbet'', ''barstool'']"

text \<open>
  The records of the odds feed. An optional field is \<open>None\<close> when the key is absent or
  null; a list is empty when its key is absent; a team name is empty when its key is
  absent.
\<close>

record outcome =
  point :: "real option"

record market =
  mkt_key :: "string option"
  outcomes :: "outcome list"

record bookmaker =
  bm_key :: "string option"
  title :: "string option"
  markets :: "market list"

record odds_event =
  home_team :: string
  away_team :: string
  bookmakers :: "bookmaker list"

text \<open>
  The dictionary comprehension \<open>{bm.get("key"): bm for bm in bookmakers}\<close>: entries are
  stored from left to right, so the last bookmaker of a key is the one kept.
\<close>

definition bm_by_key :: "bookmaker list \<Rightarrow> (string option \<rightharpoonup> bookmaker)" where
  "bm_by_key bms = foldl (\<lambda>m bm. m(bm_key bm \<mapsto> bm)) Map.empty bms"

text \<open>
  The loop over the markets of one bookmaker; \<open>None\<close> when it ends without a
  \<open>return\<close>.
\<close>

fun scan_markets :: "string \<Rightarrow> bookmaker \<Rightarrow> market list \<Rightarrow> (real \<times> string) option" where
  "scan_markets key bm [] = None"
| "scan_markets key bm (mkt # rest) =
     (if mkt_key mkt = Some ''totals'' then
        (case outcomes mkt of
           [] \<Rightarrow> scan_markets key bm rest
         | out0 # _ \<Rightarrow>
             (case point out0 of
                Some pt \<Rightarrow> Some (pt, or_str (title bm) key)
              | None \<Rightarrow> scan_markets key bm rest))
      else scan_markets key bm rest)"

text \<open>The loop over the priority list.\<close>

fun priority_loop ::
  "(string option \<rightharpoonup> bookmaker) \<Rightarrow> string list \<Rightarrow> real option \<times> string option" where
  "priority_loop by_key [] = (None, None)"
| "priority_loop by_key (key # keys) =
     (case by_key (Some key) of
        None \<Rightarrow> priority_loop by_key keys
      | Some bm \<Rightarrow>
          (case scan_markets key bm (markets bm) of
             Some (pt, book) \<Rightarrow> (Some pt, Some book)
           | None \<Rightarrow> priority_loop by_key keys))"

definition extract_full_game_total_with_book :: "odds_event \<Rightarrow> real option \<times> string option" where
  "extract_full_game_total_with_book event =
     priority_loop (bm_by_key (bookmakers event)) BOOKMAKER_PRIORITY"

text \<open>
  \<open>any(teams_match_name(n, odds_name) for n in names if n)\<close>: a variant that is absent or
  empty is passed over.
\<close>

definition any_variant_matches :: "string option list \<Rightarrow> string \<Rightarrow> bool" where
  "any_variant_matches names odds_name =
     list_ex (\<lambda>n. case n of None \<Rightarrow> False | Some s \<Rightarrow> s \<noteq> [] \<and> teams_match_name s odds_name) names"

fun find_matching_odds_event ::
  "odds_event list \<Rightarrow> string option list \<Rightarrow> string option list \<Rightarrow> odds_event option" where
  "find_matching_odds_event [] ncaa_home_names ncaa_away_names = None"
| "find_matching_odds_event (event # rest) ncaa_home_names ncaa_away_names =
     (let odds_home = home_team event;
          odds_away = away_team event;
          home_ok = any_variant_matches ncaa_home_names odds_home;
          away_ok = any_variant_matches ncaa_away_names odds_away
      in if home_ok \<and> away_ok then Some event
         else
           (let home_ok_swapped = any_variant_matches ncaa_home_names odds_away;
                away_ok_swapped = any_variant_matches ncaa_away_names odds_home
            in if home_ok_swapped \<and> away_ok_swapped then Some event
               else find_matching_odds_event rest ncaa_home_names ncaa_away_names))"

section \<open>The play-by-play source\<close>

text \<open>
  What \<open>requests.get\<close> can do: raise before there is a response, or give a response
  with a status code and a body. \<open>resp.json()\<close> raises on a body that is not JSON; a
  body that is JSON is an object (read as a play-by-play document) or some other value.
\<close>

datatype body = NotJson | JsonObject pbp_data | JsonOther

datatype http_result = RequestFailed | Response nat body

definition NCAA_BASE_URL :: string where
  "NCAA_BASE_URL = ''https://ncaa-api.henrygd.me''"

text \<open>
  \<open>get_game_play_by_play\<close>, with the network as the parameter \<open>http_get\<close>. \<open>Inl\<close> is
  an exception that leaves the function. The \<open>try\<close> block holds the request and
  \<open>raise_for_status\<close> (which raises on the status codes 400 to 599); \<open>resp.json()\<close>
  comes after it.
\<close>

definition get_game_play_by_play ::
  "(string \<Rightarrow> http_result) \<Rightarrow> string option \<Rightarrow> exn + pbp_data option" where
  "get_game_play_by_play http_get game_url_path =
     (case game_url_path of
        None \<Rightarrow> Inr None
      | Some path \<Rightarrow>
          if path = [] then Inr None
          else
            (case http_get (NCAA_BASE_URL @ path @ ''/play-by-play'') of
               RequestFailed \<Rightarrow> Inr None
             | Response status b \<Rightarrow>
                 if 400 \<le> status \<and> status < 600 then Inr None
                 else
                   (case b of
                      NotJson \<Rightarrow> Inl JSONDecodeError
                    | JsonOther \<Rightarrow> Inr None
                    | JsonObject data \<Rightarrow> Inr (Some data))))"

section \<open>The dashboard rows\<close>

text \<open>
  A game of the scoreboard. \<open>names\<close> of a side that is absent or null gives four absent
  variants; \<open>hasPbp\<close> is \<open>None\<close> when the key is absent.
\<close>

record team_names =
  short :: "string option"
  full :: "string option"
  char6 :: "string option"
  seo :: "string option"

record game =
  away :: team_names
  home :: team_names
  gameState :: "string option"
  currentPeriod :: "string option"
  url :: "string option"
  hasPbp :: "bool option"

record row =
  matchup :: string
  state :: string
  period_label :: string
  row_integer :: "pynum option"
  row_fga :: "nat option"
  row_fta :: "nat option"
  row_to :: "nat option"
  half_score :: "string option"
  full_game_total :: "real option"
  full_game_book :: "string option"
  derived_2h_line :: "pynum option"
  row_qualifies :: "bool option"
  row_lean :: "string option"
  row_diff_line :: "pynum option"
  row_score_diff :: "pynum option"

text \<open>The period label as the filter reads it, and the filter.\<close>

definition period_clean :: "game \<Rightarrow> string" where
  "period_clean g = strip (replace_char (CHR ''.'') [] (upper (or_str (currentPeriod g) [])))"

definition is_first_half :: "string \<Rightarrow> bool" where
  "is_first_half pc =
     (str_contains ''1'' pc \<and> \<not> str_contains ''FINAL'' pc \<and> \<not> str_contains ''OT'' pc \<and>
      \<not> str_contains ''HALF'' pc)"

definition is_halftime :: "string \<Rightarrow> bool" where
  "is_halftime pc = str_contains ''HALF'' pc"

text \<open>
  The first-half statistics of a game: the play-by-play is fetched unless \<open>hasPbp\<close> is
  false, and an exception of the fetch is not caught here.
\<close>

definition game_stats :: "(string \<Rightarrow> http_result) \<Rightarrow> game \<Rightarrow> exn + half_stats option" where
  "game_stats http_get g =
     (if hasPbp g \<noteq> Some False then
        (case get_game_play_by_play http_get (url g) of
           Inl e \<Rightarrow> Inl e
         | Inr None \<Rightarrow> Inr None
         | Inr (Some pbp) \<Rightarrow> compute_first_half_stats_from_pbp pbp)
      else Inr None)"

text \<open>
  The derived line, \<open>full_game_total - (home_pts_1h + away_pts_1h)\<close>, when there are
  statistics and a total: the sum of two integer scores is exact, and a score that is
  \<open>None\<close> raises \<open>TypeError\<close> in it. The total is a \<open>float\<close>.
\<close>

definition derive_line :: "half_stats option \<Rightarrow> real option \<Rightarrow> exn + pynum option" where
  "derive_line stats_1h full_game =
     (case (stats_1h, full_game) of
        (Some st, Some full_total) \<Rightarrow>
          (case (home_pts_1h st, away_pts_1h st) of
             (JInt h, JInt a) \<Rightarrow>
               (case num_sub (PyFloat (Fin full_total)) (PyInt (h + a)) of
                  Inl e \<Rightarrow> Inl e
                | Inr line \<Rightarrow> Inr (Some line))
           | _ \<Rightarrow> Inl TypeError)
      | _ \<Rightarrow> Inr None)"

text \<open>
  The evaluation, when there are statistics and a derived line; the scores are integers
  then, and \<open>None\<close> in a difference would raise \<open>TypeError\<close>.
\<close>

definition evaluate_game :: "half_stats option \<Rightarrow> pynum option \<Rightarrow> exn + bet_eval option" where
  "evaluate_game stats_1h derived =
     (case (stats_1h, derived) of
        (Some st, Some line) \<Rightarrow>
          (case (home_pts_1h st, away_pts_1h st) of
             (JInt h, JInt a) \<Rightarrow>
               (case evaluate_bet (integer_value st) (PyInt h) (PyInt a) line of
                  Inl e \<Rightarrow> Inl e
                | Inr r \<Rightarrow> Inr (Some r))
           | _ \<Rightarrow> Inl TypeError)
      | _ \<Rightarrow> Inr None)"

text \<open>
  The body of the loop over the games: \<open>Inr None\<close> is the \<open>continue\<close> of the filter,
  \<open>Inr (Some r)\<close> the row appended, \<open>Inl e\<close> an exception that leaves the loop.
\<close>

definition game_row ::
  "(string \<Rightarrow> http_result) \<Rightarrow> odds_event list \<Rightarrow> game \<Rightarrow> exn + row option" where
  "game_row http_get odds_games g =
     (let away_short = or_str (short (away g)) ''Away'';
          home_short = or_str (short (home g)) ''Home'';
          pc = period_clean g
      in if \<not> (is_first_half pc \<or> is_halftime pc) then Inr None
         else
           (case game_stats http_get g of
              Inl e \<Rightarrow> Inl e
            | Inr stats_1h \<Rightarrow>
                (let odds_event =
                       find_matching_odds_event odds_games
                         [Some home_short, full (home g), char6 (home g), seo (home g)]
                         [Some away_short, full (away g), char6 (away g), seo (away g)];
                     total_book =
                       (case odds_event of
                          Some ev \<Rightarrow> extract_full_game_total_with_book ev
                        | None \<Rightarrow> (None, None))
                 in case derive_line stats_1h (fst total_book) of
                      Inl e \<Rightarrow> Inl e
                    | Inr derived \<Rightarrow>
                        (case evaluate_game stats_1h derived of
                           Inl e \<Rightarrow> Inl e
                         | Inr eval_result \<Rightarrow>
                    Inr (Some
                      \<lparr>matchup = away_short @ '' @ '' @ home_short,
                       state = upper (or_str (gameState g) []),
                       period_label = upper (or_str (currentPeriod g) []),
                       row_integer = map_option integer_value stats_1h,
                       row_fga = map_option stats_fga stats_1h,
                       row_fta = map_option stats_fta stats_1h,
                       row_to = map_option stats_turnovers stats_1h,
                       half_score =
                         map_option
                           (\<lambda>st. str_score (away_pts_1h st) @ ''-'' @ str_score (home_pts_1h st))
                           stats_1h,
                       full_game_total = fst total_book,
                       full_game_book = snd total_book,
                       derived_2h_line = derived,
                       row_qualifies = map_option qualifies eval_result,
                       row_lean = map_option lean eval_result,
                       row_diff_line = map_option diff_line eval_result,
                       row_score_diff = map_option score_diff eval_result\<rparr>)))))"

fun rows_loop ::
  "(string \<Rightarrow> http_result) \<Rightarrow> odds_event list \<Rightarrow> game list \<Rightarrow> row list \<Rightarrow> exn + row list" where
  "rows_loop http_get odds_games [] rows = Inr rows"
| "rows_loop http_get odds_games (g # gs) rows =
     (case game_row http_get odds_games g of
        Inl e \<Rightarrow> Inl e
      | Inr None \<Rightarrow> rows_loop http_get odds_games gs rows
      | Inr (Some r) \<Rightarrow> rows_loop http_get odds_games gs (rows @ [r]))"

text \<open>
  What one refresh sees of the outside: the scoreboard and the odds, each either the
  message of the exception raised while loading it or the list loaded, and the network
  of the play-by-play source.
\<close>

record world =
  scoreboard :: "string + game list"
  odds_today :: "string + odds_event list"
  pbp_http :: "string \<Rightarrow> http_result"

definition build_dashboard_rows :: "world \<Rightarrow> exn + (row list \<times> string option)" where
  "build_dashboard_rows w =
     (case scoreboard w of
        Inl e \<Rightarrow> Inr ([], Some (''Error loading NCAA scoreboard: '' @ e))
      | Inr games \<Rightarrow>
          (case odds_today w of
             Inl e \<Rightarrow> Inr ([], Some (''Error loading Odds API data: '' @ e))
           | Inr odds_games \<Rightarrow>
               (case rows_loop (pbp_http w) odds_games games [] of
                  Inl e \<Rightarrow> Inl e
                | Inr rows \<Rightarrow> Inr (rows, None))))"

section \<open>Notions of the specification\<close>

text \<open>
  The score last seen in a sequence of plays: the value of the last play that carries
  the key, and 0 when no play carries it.
\<close>

definition last_seen :: "(play \<Rightarrow> json_score option) \<Rightarrow> play list \<Rightarrow> json_score" where
  "last_seen field plays =
     (case rev (List.map_filter field plays) of [] \<Rightarrow> JInt 0 | v # _ \<Rightarrow> v)"

text \<open>
  \<open>abs(x - y)\<close> on two finite doubles, as the program computes it, and the test that a real
  is a double.
\<close>

definition double_abs_diff :: "real \<Rightarrow> real \<Rightarrow> fl" where
  "double_abs_diff x y = fl_abs (fl_sub (Fin x) (Fin y))"

definition is_double :: "real \<Rightarrow> bool" where
  "is_double x = (round_double x = Fin x)"

text \<open>
  Some variant that is present matches a market name; and an event qualifies for a game
  when (a) a non-empty home variant matches its home team and a non-empty away variant its
  away team, or (b) a home variant matches its away team and an away variant its home
  team.
\<close>

definition some_variant_matches :: "string option list \<Rightarrow> string \<Rightarrow> bool" where
  "some_variant_matches names odds_name =
     list_ex (\<lambda>n. case n of None \<Rightarrow> False | Some s \<Rightarrow> teams_match_name s odds_name) names"

definition event_qualifies :: "string option list \<Rightarrow> string option list \<Rightarrow> odds_event \<Rightarrow> bool" where
  "event_qualifies home_names away_names e =
     ((any_variant_matches home_names (home_team e) \<and> any_variant_matches away_names (away_team e)) \<or>
      (some_variant_matches home_names (away_team e) \<and> some_variant_matches away_names (home_team e)))"

text \<open>
  What a market offers: the point of its first outcome, when the market is tagged
  "totals", has an outcome and the point is not null.
\<close>

definition totals_point :: "market \<Rightarrow> real option" where
  "totals_point m =
     (if mkt_key m = Some ''totals''
      then (case outcomes m of [] \<Rightarrow> None | out0 # _ \<Rightarrow> point out0) else None)"

text \<open>The bookmaker that the index holds for a key: the last one of the list with that key.\<close>

definition indexed_bookmaker :: "bookmaker list \<Rightarrow> string \<Rightarrow> bookmaker option" where
  "indexed_bookmaker bms key =
     (case filter (\<lambda>bm. bm_key bm = Some key) bms of [] \<Rightarrow> None | b # bs \<Rightarrow> Some (last (b # bs)))"

text \<open>
  What the event offers under a key: the first point that a market of the indexed
  bookmaker offers, with the display title of the bookmaker, or the key when there is no
  title.
\<close>

definition book_quote :: "bookmaker list \<Rightarrow> string \<Rightarrow> (real \<times> string) option" where
  "book_quote bms key =
     (case indexed_bookmaker bms key of
        None \<Rightarrow> None
      | Some bm \<Rightarrow>
          (case List.map_filter totals_point (markets bm) of
             [] \<Rightarrow> None
           | pt # _ \<Rightarrow> Some (pt, or_str (title bm) key)))"

text \<open>
  The normalisation as the specification words it: lowercase, "&" to "and", every
  character outside lowercase letters, digits and whitespace to a space, the six noise
  tokens removed as whole words, whitespace collapsed and trimmed. The tokens that are
  left are joined by single spaces.
\<close>

definition NOISE_TOKENS :: "string list" where
  "NOISE_TOKENS = [''university'', ''college'', ''state'', ''st'', ''the'', ''of'']"

fun join_spaces :: "string list \<Rightarrow> string" where
  "join_spaces [] = []"
| "join_spaces [w] = w"
| "join_spaces (w # ws) = w @ '' '' @ join_spaces ws"

definition normalize_spec :: "string \<Rightarrow> string" where
  "normalize_spec name =
     join_spaces (filter (\<lambda>w. w \<notin> set NOISE_TOKENS)
                   (split (sub_punct (replace_char (CHR ''&'') ''and'' (lower name)))))"

section \<open>Example inputs\<close>

definition play_of :: "string \<Rightarrow> play" where
  "play_of desc = \<lparr>eventDescription = Some desc, visitorText = None, homeText = None,
                    homeScore = None, visitorScore = None\<rparr>"


definition ex_layup_turnover :: play where
  "ex_layup_turnover = play_of ''Smith misses layup, turnover by Jones''"

definition ex_scored_plays :: "play list" where
  "ex_scored_plays =
     [\<lparr>eventDescription = Some ''Jones makes layup'', visitorText = None, homeText = None,
       homeScore = Some (JInt 2), visitorScore = Some (JInt 0)\<rparr>,
      \<lparr>eventDescription = Some ''Timeout'', visitorText = None, homeText = None,
       homeScore = None, visitorScore = None\<rparr>,
      \<lparr>eventDescription = None, visitorText = Some ''Smith makes 3 pointer'', homeText = None,
       homeScore = None, visitorScore = Some (JInt 3)\<rparr>]"

definition ex_pbp :: pbp_data where
  "ex_pbp = \<lparr>periods = [\<lparr>periodNumber = PNum 1, playbyplayStats = ex_scored_plays\<rparr>,
                        \<lparr>periodNumber = PNum 2, playbyplayStats = []\<rparr>]\<rparr>"

definition totals_market :: "real \<Rightarrow> market" where
  "totals_market pt = \<lparr>mkt_key = Some ''totals'', outcomes = [\<lparr>point = Some pt\<rparr>, \<lparr>point = Some pt\<rparr>]\<rparr>"

definition ex_fanduel :: bookmaker where
  "ex_fanduel = \<lparr>bm_key = Some ''fanduel'', title = Some ''FanDuel'', markets = [totals_market 144.5]\<rparr>"

definition ex_draftkings :: bookmaker where
  "ex_draftkings = \<lparr>bm_key = Some ''draftkings'', title = Some ''DraftKings'', markets = [totals_market 145]\<rparr>"

definition ex_draftkings_no_totals :: bookmaker where
  "ex_draftkings_no_totals = \<lparr>bm_key = Some ''draftkings'', title = Some ''DraftKings'', markets = []\<rparr>"

definition ex_draftkings_other :: bookmaker where
  "ex_draftkings_other = \<lparr>bm_key = Some ''draftkings'', title = Some ''DraftKings'', markets = [totals_market 146]\<rparr>"

definition event_of :: "string \<Rightarrow> string \<Rightarrow> bookmaker list \<Rightarrow> odds_event" where
  "event_of h a bms = \<lparr>home_team = h, away_team = a, bookmakers = bms\<rparr>"

definition ex_fall_through :: odds_event where
  "ex_fall_through = event_of ''Duke'' ''UNC'' [ex_draftkings_no_totals, ex_fanduel]"

definition names_of :: "string \<Rightarrow> team_names" where
  "names_of s = \<lparr>short = Some s, full = None, char6 = None, seo = None\<rparr>"

definition game_of :: "string \<Rightarrow> string \<Rightarrow> string \<Rightarrow> string \<Rightarrow> game" where
  "game_of a h per path =
     \<lparr>away = names_of a, home = names_of h, gameState = Some ''live'', currentPeriod = Some per,
      url = Some path, hasPbp = None\<rparr>"

definition ex_http :: "string \<Rightarrow> http_result" where
  "ex_http u =
     (if u = ''https://ncaa-api.henrygd.me/game/1/play-by-play'' then Response 200 NotJson
      else Response 200 (JsonObject ex_pbp))"

definition ex_game_bad_body :: game where
  "ex_game_bad_body = game_of ''Duke'' ''UNC'' ''1st'' ''/game/1''"

definition ex_game_good :: game where
  "ex_game_good = game_of ''Kansas'' ''Baylor'' ''1st'' ''/game/2''"

definition ex_game_overtime :: game where
  "ex_game_overtime = game_of ''Kansas'' ''Baylor'' ''1OT'' ''/game/2''"

definition ex_game_half_ot :: game where
  "ex_game_half_ot = game_of ''Kansas'' ''Baylor'' ''Half OT'' ''/game/2''"

definition world_of :: "game list \<Rightarrow> world" where
  "world_of gs = \<lparr>scoreboard = Inr gs, odds_today = Inr [], pbp_http = ex_http\<rparr>"

definition row_labels :: "exn + (row list \<times> string option) \<Rightarrow> exn + (string list \<times> string option)" where
  "row_labels r = map_sum id (\<lambda>(rows, e). (map matchup rows, e)) r"

definition ex_events :: "odds_event list" where
  "ex_events =
     [event_of ''Kansas Jayhawks'' ''Baylor Bears'' [],
      event_of ''North Carolina Tar Heels'' ''Duke Blue Devils'' [],
      event_of ''Duke Blue Devils'' ''North Carolina Tar Heels'' [ex_draftkings]]"

definition ex_home_names :: "string option list" where
  "ex_home_names = [Some ''Duke'', None, Some [], Some ''duke'']"

definition ex_away_names :: "string option list" where
  "ex_away_names = [Some ''North Carolina'', Some ''University of North Carolina'', None, None]"

text \<open>
  The doubles that Python reads from the literals 6.1, 11.1 and 0.1.
\<close>

definition ex_six_point_one :: real where
  "ex_six_point_one = 6867989431740006 / 2 ^ 50"

definition ex_eleven_point_one :: real where
  "ex_eleven_point_one = 6248744482976563 / 2 ^ 49"

definition ex_point_one :: real where
  "ex_point_one = 3602879701896397 / 2 ^ 55"

text \<open>A period whose second play carries a home score that is null.\<close>

definition ex_null_score_plays :: "play list" where
  "ex_null_score_plays =
     [\<lparr>eventDescription = Some ''Jones makes layup'', visitorText = None, homeText = None,
       homeScore = Some (JInt 7), visitorScore = Some (JInt 5)\<rparr>,
      \<lparr>eventDescription = Some ''Timeout'', visitorText = None, homeText = None,
       homeScore = Some JNull, visitorScore = None\<rparr>]"

definition ex_null_score_pbp :: pbp_data where
  "ex_null_score_pbp = \<lparr>periods = [\<lparr>periodNumber = PNum 1, playbyplayStats = ex_null_score_plays\<rparr>]\<rparr>"

definition ex_null_score_world :: world where
  "ex_null_score_world =
     \<lparr>scoreboard = Inr [ex_game_good],
      odds_today = Inr [event_of ''Baylor Bears'' ''Kansas Jayhawks'' [ex_draftkings]],
      pbp_http = (\<lambda>u. Response 200 (JsonObject ex_null_score_pbp))\<rparr>"

definition bet_qualifies :: "exn + bet_eval \<Rightarrow> exn + bool" where
  "bet_qualifies r = map_sum id qualifies r"

definition stats_home :: "exn + half_stats option \<Rightarrow> exn + json_score option" where
  "stats_home r = map_sum id (map_option home_pts_1h) r"

section \<open>The loop body, counter by counter\<close>

lemma fta_if: "fta (if c then a else b) = (if c then fta a else fta b)"
  by simp

lemma fga_if: "fga (if c then a else b) = (if c then fga a else fga b)"
  by simp

lemma play_step_fta:
  "fta (play_step st p) = fta st +
     (let d = lower (play_desc p) in
      if str_contains ''free throw'' d then
        (if str_contains ''both free throws'' d then 2
         else if str_contains ''all three free throws'' d \<or> str_contains ''all 3 free throws'' d
                 \<or> str_contains ''three free throws'' d \<or> str_contains ''3 free throws'' d then 3
         else if str_contains ''two free throws'' d \<or> str_contains ''2 free throws'' d then 2
         else 1)
      else 0)"
  by (cases "str_contains ''free throw'' (lower (play_desc p))")
     (simp_all add: play_step_def Let_def fta_if cong: if_cong)

lemma play_step_fga:
  "fga (play_step st p) = fga st +
     (let d = lower (play_desc p) in
      if list_ex (\<lambda>k. str_contains k d) SHOT_KEYWORDS \<and> \<not> str_contains ''free throw'' d
      then 1 else 0)"
  by (cases "str_contains ''free throw'' (lower (play_desc p))")
     (simp_all add: play_step_def Let_def fga_if fta_if cong: if_cong)

lemma play_step_last_home:
  "last_home_score (play_step st p) =
     (case homeScore p of Some v \<Rightarrow> v | None \<Rightarrow> last_home_score st)"
  by (simp add: play_step_def Let_def)

lemma play_step_last_visitor:
  "last_visitor_score (play_step st p) =
     (case visitorScore p of Some v \<Rightarrow> v | None \<Rightarrow> last_visitor_score st)"
  by (simp add: play_step_def Let_def)

text \<open>The running scores after a whole sequence of plays, by induction from the right.\<close>

lemma foldl_last_home:
  "last_home_score (foldl play_step st ps) =
     (case rev (List.map_filter homeScore ps) of [] \<Rightarrow> last_home_score st | v # _ \<Rightarrow> v)"
proof (induction ps rule: rev_induct)
  case Nil
  show ?case by (simp add: List.map_filter_simps)
next
  case (snoc p ps)
  show ?case
  proof (cases "homeScore p")
    case None
    with snoc show ?thesis by (simp add: play_step_last_home List.map_filter_def)
  next
    case (Some v)
    then show ?thesis by (simp add: play_step_last_home List.map_filter_def)
  qed
qed

lemma foldl_last_visitor:
  "last_visitor_score (foldl play_step st ps) =
     (case rev (List.map_filter visitorScore ps) of [] \<Rightarrow> last_visitor_score st | v # _ \<Rightarrow> v)"
proof (induction ps rule: rev_induct)
  case Nil
  show ?case by (simp add: List.map_filter_simps)
next
  case (snoc p ps)
  show ?case
  proof (cases "visitorScore p")
    case None
    with snoc show ?thesis by (simp add: play_step_last_visitor List.map_filter_def)
  next
    case (Some v)
    then show ?thesis by (simp add: play_step_last_visitor List.map_filter_def)
  qed
qed

section \<open>Rounding to a double\<close>

lemma round_half_even_ge: "of_int j \<le> q \<Longrightarrow> j \<le> round_half_even q"
proof -
  assume "of_int j \<le> q"
  then have "j \<le> \<lfloor>q\<rfloor>" by (simp add: le_floor_iff)
  then show ?thesis by (simp add: round_half_even_def Let_def)
qed

lemma round_half_even_le: "q \<le> of_int j \<Longrightarrow> round_half_even q \<le> j"
proof -
  assume q: "q \<le> of_int j"
  then have f: "\<lfloor>q\<rfloor> \<le> j" by (simp add: floor_le_iff)
  show ?thesis
  proof (cases "\<lfloor>q\<rfloor> = j")
    case True
    with q have "q - of_int \<lfloor>q\<rfloor> \<le> 0" by simp
    then have "q - of_int \<lfloor>q\<rfloor> < 1 / 2" by linarith
    with True show ?thesis by (simp add: round_half_even_def Let_def)
  next
    case False
    with f have "\<lfloor>q\<rfloor> + 1 \<le> j" by simp
    then show ?thesis by (simp add: round_half_even_def Let_def)
  qed
qed

lemma binade_ge: "1 \<le> a \<Longrightarrow> 0 \<le> binade a \<and> 2 ^ nat (binade a) \<le> a"
proof -
  assume a: "1 \<le> a"
  then have pos: "0 < \<lfloor>a\<rfloor>" by simp
  from bitlen_bounds [OF pos] have "2 ^ nat (bitlen \<lfloor>a\<rfloor> - 1) \<le> \<lfloor>a\<rfloor>" ..
  then have "(2::real) ^ nat (bitlen \<lfloor>a\<rfloor> - 1) \<le> of_int \<lfloor>a\<rfloor>"
    by (metis of_int_le_iff of_int_numeral of_int_power)
  also have "\<dots> \<le> a" by simp
  finally have b: "2 ^ nat (bitlen \<lfloor>a\<rfloor> - 1) \<le> a" .
  from pos have "1 \<le> bitlen \<lfloor>a\<rfloor>" by (simp add: bitlen_alt_def)
  with a b show ?thesis by (simp add: binade_def)
qed

lemma binade_less: "a < 2 ^ w \<Longrightarrow> 0 < w \<Longrightarrow> binade a < int w"
proof (cases "1 \<le> a")
  case True
  assume a: "a < 2 ^ w"
  have "of_int \<lfloor>a\<rfloor> \<le> a" by simp
  with a have "of_int \<lfloor>a\<rfloor> < (2::real) ^ w" by linarith
  then have "\<lfloor>a\<rfloor> < 2 ^ w"
    by (metis of_int_less_iff of_int_numeral of_int_power)
  then have "bitlen \<lfloor>a\<rfloor> \<le> int w"
    by (simp add: bitlen_le_iff_power)
  with True show ?thesis by (simp add: binade_def)
next
  case False
  assume "0 < w"
  moreover have "0 \<le> bitlen (\<lceil>1 / a\<rceil> - 1)" by (rule bitlen_nonneg)
  ultimately show ?thesis using False by (simp add: binade_def)
qed


lemma powi_nonpos: "e \<le> 0 \<Longrightarrow> (2::real) powi e = 1 / 2 ^ nat (- e)"
  by (cases "e = 0") (simp_all add: power_int_def power_one_over)

lemma powi_nonneg: "0 \<le> e \<Longrightarrow> (2::real) powi e = 2 ^ nat e"
  by (simp add: power_int_def)

lemma round_double_pos:
  "0 < x \<Longrightarrow>
   round_double x =
     (let e = max (binade x) (- 1022) - 52;
          v = of_int (round_half_even (x * 2 powi (- e))) * 2 powi e
      in if 1024 \<le> binade v then PInf else Fin v)"
  by (simp add: round_double_def Let_def)

lemma round_double_le:
  assumes x0: "0 \<le> x" and xt: "x \<le> of_int j / 2 ^ k" and j: "j < 2 ^ 53" and k: "k \<le> 52"
  shows "\<exists>v. round_double x = Fin v \<and> 0 \<le> v \<and> v \<le> of_int j / 2 ^ k"
proof (cases "x = 0")
  case True
  with x0 xt show ?thesis by (simp add: round_double_def)
next
  case False
  with x0 have xpos: "0 < x" by simp
  define e where "e = max (binade x) (- 1022) - 52"
  define d where "d = nat (- e)"
  from j have "real_of_int j < 2 ^ 53"
    by (metis of_int_less_iff of_int_numeral of_int_power)
  also from k have "(2::real) ^ 53 = 2 ^ k * 2 ^ (53 - k)"
    by (simp flip: power_add)
  finally have tlt: "of_int j / 2 ^ k < (2::real) ^ (53 - k)"
    by (simp add: divide_less_eq mult.commute)
  with xt have "x < 2 ^ (53 - k)" by linarith
  moreover from k have "0 < 53 - k" by simp
  ultimately have "binade x < int (53 - k)" by (rule binade_less)
  with k have ele: "e \<le> - int k" by (simp add: e_def)
  then have d: "- e = int d" "k \<le> d" by (simp_all add: d_def)
  from ele have e0: "e \<le> 0" by linarith
  have p1: "(2::real) powi (- e) = 2 ^ d"
    using d(1) by (simp add: power_int_def)
  have p2: "(2::real) powi e = 1 / 2 ^ d"
    using powi_nonpos [OF e0] by (simp add: d_def)
  define n where "n = round_half_even (x * 2 ^ d)"
  have split: "(2::real) ^ d = 2 ^ k * 2 ^ (d - k)"
    using d(2) by (simp flip: power_add)
  from xt have "x * 2 ^ k \<le> of_int j" by (simp add: pos_le_divide_eq)
  then have "x * 2 ^ k * 2 ^ (d - k) \<le> of_int j * 2 ^ (d - k)"
    by (simp add: mult_right_mono)
  then have "x * 2 ^ d \<le> of_int (j * 2 ^ (d - k))"
    by (simp add: split mult.assoc)
  then have nle: "n \<le> j * 2 ^ (d - k)"
    unfolding n_def by (rule round_half_even_le)
  from xpos have "of_int 0 \<le> x * 2 ^ d" by simp
  then have n0: "0 \<le> n" unfolding n_def by (rule round_half_even_ge)
  define v where "v = real_of_int n / 2 ^ d"
  from n0 have v0: "0 \<le> v" by (simp add: v_def)
  from nle have "real_of_int n \<le> of_int j * 2 ^ (d - k)"
    by (metis of_int_le_iff of_int_mult of_int_numeral of_int_power)
  then have "real_of_int n / 2 ^ d \<le> of_int j * 2 ^ (d - k) / 2 ^ d"
    by (simp add: divide_right_mono)
  then have vle: "v \<le> of_int j / 2 ^ k"
    by (simp add: v_def split)
  have "(2::real) ^ (53 - k) \<le> 2 ^ 53" by (rule power_increasing) simp_all
  with vle tlt have "v < 2 ^ 53" by linarith
  then have "binade v < int 53" by (rule binade_less) simp
  then have nov: "\<not> 1024 \<le> binade v" by simp
  have "round_double x = Fin v"
    using nov by (simp add: round_double_pos [OF xpos] Let_def p1 p2 flip: e_def n_def v_def)
  with v0 vle show ?thesis by blast
qed

lemma round_double_ge:
  assumes j1: "1 \<le> j" and j: "j \<le> 2 ^ 53" and jx: "of_int j \<le> x"
  shows "fl_le (Fin (of_int j)) (round_double x)"
proof -
  from j1 jx have x1: "1 \<le> x" by linarith
  then have xpos: "0 < x" by linarith
  define e where "e = binade x - 52"
  from binade_ge [OF x1] have b0: "0 \<le> binade x" and bx: "2 ^ nat (binade x) \<le> x" by simp_all
  from b0 have emax: "max (binade x) (- 1022) - 52 = e" by (simp add: e_def)
  define v where "v = of_int (round_half_even (x * 2 powi (- e))) * (2::real) powi e"
  have vge: "of_int j \<le> v"
  proof (cases "e \<le> 0")
    case True
    define d where "d = nat (- e)"
    from True have p1: "(2::real) powi (- e) = 2 ^ d" by (simp add: power_int_def d_def)
    from True have p2: "(2::real) powi e = 1 / 2 ^ d" using powi_nonpos by (simp add: d_def)
    from jx have "of_int (j * 2 ^ d) \<le> x * 2 ^ d" by (simp add: mult_right_mono)
    then have "j * 2 ^ d \<le> round_half_even (x * 2 ^ d)" by (rule round_half_even_ge)
    then have "real_of_int j * 2 ^ d \<le> of_int (round_half_even (x * 2 ^ d))"
      by (metis of_int_le_iff of_int_mult of_int_numeral of_int_power)
    then show ?thesis by (simp add: v_def p1 p2 pos_le_divide_eq)
  next
    case False
    define d where "d = nat e"
    from False have dpos: "0 < d" and ed: "e = int d" by (simp_all add: d_def)
    from False have p1: "(2::real) powi (- e) = 1 / 2 ^ d"
      using powi_nonpos [of "- e"] by (simp add: d_def)
    from False have p2: "(2::real) powi e = 2 ^ d" by (simp add: power_int_def d_def)
    from ed have "nat (binade x) = d + 52" by (simp add: e_def)
    with bx have "(2::real) ^ 52 * 2 ^ d \<le> x" by (simp add: power_add mult.commute)
    then have "of_int (2 ^ 52) \<le> x / 2 ^ d" by (simp add: pos_le_divide_eq)
    then have "2 ^ 52 \<le> round_half_even (x / 2 ^ d)" by (rule round_half_even_ge)
    then have "(2::real) ^ 52 \<le> of_int (round_half_even (x / 2 ^ d))"
      by (metis of_int_le_iff of_int_numeral of_int_power)
    moreover have "(2::real) ^ 1 \<le> 2 ^ d" using dpos by (intro power_increasing) simp_all
    ultimately have "(2::real) ^ 52 * 2 ^ 1 \<le> of_int (round_half_even (x / 2 ^ d)) * 2 ^ d"
      by (intro mult_mono) simp_all
    then have "(2::real) ^ 53 \<le> v" by (simp add: v_def p1 p2)
    moreover from j have "real_of_int j \<le> 2 ^ 53"
      by (metis of_int_le_iff of_int_numeral of_int_power)
    ultimately show ?thesis by linarith
  qed
  have "round_double x = (if 1024 \<le> binade v then PInf else Fin v)"
    by (simp add: round_double_pos [OF xpos] Let_def emax flip: v_def)
  with vge show ?thesis by simp
qed

lemma round_double_abs: "fl_abs (round_double x) = round_double \<bar>x\<bar>"
proof -
  define e where "e = max (binade \<bar>x\<bar>) (- 1022) - 52"
  define v where "v = of_int (round_half_even (\<bar>x\<bar> * 2 powi (- e))) * (2::real) powi e"
  have "of_int 0 \<le> \<bar>x\<bar> * 2 powi (- e)" by simp
  then have "0 \<le> round_half_even (\<bar>x\<bar> * 2 powi (- e))" by (rule round_half_even_ge)
  then have v0: "0 \<le> v" by (simp add: v_def)
  have l: "round_double x =
             (if x = 0 then Fin 0
              else if 1024 \<le> binade v then (if x < 0 then NInf else PInf)
              else Fin (if x < 0 then - v else v))"
    unfolding round_double_def Let_def e_def v_def ..
  have r: "round_double \<bar>x\<bar> =
             (if \<bar>x\<bar> = 0 then Fin 0
              else if 1024 \<le> binade v then (if \<bar>x\<bar> < 0 then NInf else PInf)
              else Fin (if \<bar>x\<bar> < 0 then - v else v))"
    unfolding round_double_def Let_def e_def v_def abs_abs ..
  from v0 show ?thesis by (simp add: l r)
qed

section \<open>The betting evaluator\<close>

lemma double_abs_diff_round: "double_abs_diff x y = round_double \<bar>x - y\<bar>"
  by (simp add: double_abs_diff_def fl_sub_def round_double_abs)

lemma double_abs_diff_ge:
  assumes "of_int j \<le> \<bar>x - y\<bar>" and "1 \<le> j" and "j \<le> 2 ^ 53"
  shows "fl_le (Fin (of_int j)) (double_abs_diff x y)"
  unfolding double_abs_diff_round using assms(2,3,1) by (rule round_double_ge)

lemma double_abs_diff_below:
  assumes "\<bar>x - y\<bar> \<le> of_int j / 2 ^ k" and "j < 2 ^ 53" and "k \<le> 52"
  shows "\<exists>v. double_abs_diff x y = Fin v \<and> 0 \<le> v \<and> v \<le> of_int j / 2 ^ k"
  unfolding double_abs_diff_round using abs_ge_zero assms by (rule round_double_le)

lemma evaluate_bet_floats:
  "evaluate_bet (PyFloat (Fin iv)) (PyFloat (Fin h)) (PyFloat (Fin a)) (PyFloat (Fin l)) =
     Inr \<lparr>qualifies = (fl_le (Fin 6) (double_abs_diff iv l) \<and> fl_less (double_abs_diff h a) (Fin 11)),
          diff_line = PyFloat (double_abs_diff iv l), score_diff = PyFloat (double_abs_diff h a),
          lean = (if l < iv then ''OVER'' else if iv < l then ''UNDER'' else ''NEUTRAL'')\<rparr>"
  by (simp add: evaluate_bet_def double_abs_diff_def num_le_def num_less_def Let_def)

lemma evaluate_bet_int_scores:
  "evaluate_bet (PyFloat (Fin iv)) (PyInt hi) (PyInt ai) (PyFloat (Fin l)) =
     Inr \<lparr>qualifies = (fl_le (Fin 6) (double_abs_diff iv l) \<and> \<bar>hi - ai\<bar> < 11),
          diff_line = PyFloat (double_abs_diff iv l), score_diff = PyInt \<bar>hi - ai\<bar>,
          lean = (if l < iv then ''OVER'' else if iv < l then ''UNDER'' else ''NEUTRAL'')\<rparr>"
proof -
  have "(real_of_int \<bar>hi - ai\<bar> < 11) = (\<bar>hi - ai\<bar> < 11)" by linarith
  then show ?thesis
    by (simp add: evaluate_bet_def double_abs_diff_def num_le_def num_less_def Let_def
          del: of_int_abs of_int_diff)
qed

lemma evaluate_bet_ints:
  "evaluate_bet (PyInt ivi) (PyInt hi) (PyInt ai) (PyInt li) =
     Inr \<lparr>qualifies = (6 \<le> \<bar>ivi - li\<bar> \<and> \<bar>hi - ai\<bar> < 11),
          diff_line = PyInt \<bar>ivi - li\<bar>, score_diff = PyInt \<bar>hi - ai\<bar>,
          lean = (if li < ivi then ''OVER'' else if ivi < li then ''UNDER'' else ''NEUTRAL'')\<rparr>"
proof -
  have "(real_of_int \<bar>hi - ai\<bar> < 11) = (\<bar>hi - ai\<bar> < 11)" by linarith
  moreover have "(6 \<le> real_of_int \<bar>ivi - li\<bar>) = (6 \<le> \<bar>ivi - li\<bar>)" by linarith
  ultimately show ?thesis
    by (simp add: evaluate_bet_def num_le_def num_less_def Let_def
          del: of_int_abs of_int_diff)
qed

lemma diff_line_rounding:
  "(6 \<le> \<bar>iv - l\<bar> \<longrightarrow> fl_le (Fin 6) (double_abs_diff iv l)) \<and>
   (\<bar>iv - l\<bar> \<le> 6 - 1 / 2 ^ 50 \<longrightarrow> \<not> fl_le (Fin 6) (double_abs_diff iv l))"
proof (intro conjI impI)
  assume "6 \<le> \<bar>iv - l\<bar>"
  then have "of_int 6 \<le> \<bar>iv - l\<bar>" by simp
  then have "fl_le (Fin (of_int 6)) (double_abs_diff iv l)"
    by (rule double_abs_diff_ge) simp_all
  then show "fl_le (Fin 6) (double_abs_diff iv l)" by simp
next
  assume "\<bar>iv - l\<bar> \<le> 6 - 1 / 2 ^ 50"
  then have "\<bar>iv - l\<bar> \<le> of_int 6755399441055743 / 2 ^ 50" by simp
  then have "\<exists>v. double_abs_diff iv l = Fin v \<and> 0 \<le> v \<and> v \<le> of_int 6755399441055743 / 2 ^ 50"
    by (rule double_abs_diff_below) simp_all
  then obtain v where "double_abs_diff iv l = Fin v" and "v \<le> of_int 6755399441055743 / 2 ^ 50"
    by blast
  then show "\<not> fl_le (Fin 6) (double_abs_diff iv l)" by simp
qed

lemma score_diff_rounding:
  "(11 \<le> \<bar>h - a\<bar> \<longrightarrow> \<not> fl_less (double_abs_diff h a) (Fin 11)) \<and>
   (\<bar>h - a\<bar> \<le> 11 - 1 / 2 ^ 49 \<longrightarrow> fl_less (double_abs_diff h a) (Fin 11))"
proof (intro conjI impI)
  assume "11 \<le> \<bar>h - a\<bar>"
  then have "of_int 11 \<le> \<bar>h - a\<bar>" by simp
  then have "fl_le (Fin (of_int 11)) (double_abs_diff h a)"
    by (rule double_abs_diff_ge) simp_all
  then show "\<not> fl_less (double_abs_diff h a) (Fin 11)"
    by (cases "double_abs_diff h a") simp_all
next
  assume "\<bar>h - a\<bar> \<le> 11 - 1 / 2 ^ 49"
  then have "\<bar>h - a\<bar> \<le> of_int 6192449487634431 / 2 ^ 49" by simp
  then have "\<exists>v. double_abs_diff h a = Fin v \<and> 0 \<le> v \<and> v \<le> of_int 6192449487634431 / 2 ^ 49"
    by (rule double_abs_diff_below) simp_all
  then obtain v where "double_abs_diff h a = Fin v" and "v \<le> of_int 6192449487634431 / 2 ^ 49"
    by blast
  then show "fl_less (double_abs_diff h a) (Fin 11)" by simp
qed

text \<open>
  C1 (as amended). On finite doubles \<open>evaluate_bet\<close> qualifies exactly when the
  difference of integer value and derived line as computed, that is the absolute value
  of the exact difference rounded to the nearest double, is at least 6, and the score
  difference as computed is below 11; with integer scores the score difference is exact,
  and with four integers both differences are.
  The lean is OVER, UNDER or NEUTRAL as the integer value is above, below or equal to the
  line. An exact difference of at least 6 gives a computed one of at least 6, and an exact
  difference up to \<open>6 - 2 ^ -50\<close>, the largest double below 6, gives a computed one below
  6 and so never qualifies, whatever the scores; likewise an exact score difference of at
  least 11 never qualifies and one up to \<open>11 - 2 ^ -49\<close> counts as below 11.
\<close>

theorem evaluate_bet_on_doubles:
  "evaluate_bet (PyFloat (Fin iv)) (PyFloat (Fin h)) (PyFloat (Fin a)) (PyFloat (Fin l)) =
     Inr \<lparr>qualifies = (fl_le (Fin 6) (double_abs_diff iv l) \<and> fl_less (double_abs_diff h a) (Fin 11)),
          diff_line = PyFloat (double_abs_diff iv l), score_diff = PyFloat (double_abs_diff h a),
          lean = (if l < iv then ''OVER'' else if iv < l then ''UNDER'' else ''NEUTRAL'')\<rparr> \<and>
   evaluate_bet (PyFloat (Fin iv)) (PyInt hi) (PyInt ai) (PyFloat (Fin l)) =
     Inr \<lparr>qualifies = (fl_le (Fin 6) (double_abs_diff iv l) \<and> \<bar>hi - ai\<bar> < 11),
          diff_line = PyFloat (double_abs_diff iv l), score_diff = PyInt \<bar>hi - ai\<bar>,
          lean = (if l < iv then ''OVER'' else if iv < l then ''UNDER'' else ''NEUTRAL'')\<rparr> \<and>
   evaluate_bet (PyInt ivi) (PyInt hi) (PyInt ai) (PyInt li) =
     Inr \<lparr>qualifies = (6 \<le> \<bar>ivi - li\<bar> \<and> \<bar>hi - ai\<bar> < 11),
          diff_line = PyInt \<bar>ivi - li\<bar>, score_diff = PyInt \<bar>hi - ai\<bar>,
          lean = (if li < ivi then ''OVER'' else if ivi < li then ''UNDER'' else ''NEUTRAL'')\<rparr> \<and>
   double_abs_diff iv l = round_double \<bar>iv - l\<bar> \<and>
   double_abs_diff h a = round_double \<bar>h - a\<bar> \<and>
   (6 \<le> \<bar>iv - l\<bar> \<longrightarrow> fl_le (Fin 6) (double_abs_diff iv l)) \<and>
   (\<bar>iv - l\<bar> \<le> 6 - 1 / 2 ^ 50 \<longrightarrow> \<not> fl_le (Fin 6) (double_abs_diff iv l)) \<and>
   (11 \<le> \<bar>h - a\<bar> \<longrightarrow> \<not> fl_less (double_abs_diff h a) (Fin 11)) \<and>
   (\<bar>h - a\<bar> \<le> 11 - 1 / 2 ^ 49 \<longrightarrow> fl_less (double_abs_diff h a) (Fin 11))"
  using evaluate_bet_floats [of iv h a l] evaluate_bet_int_scores [of iv hi ai l]
    evaluate_bet_ints [of ivi hi ai li]
    double_abs_diff_round [of iv l] double_abs_diff_round [of h a]
    diff_line_rounding [of iv l] score_diff_rounding [of h a]
  by (intro conjI) (erule conjunct1 conjunct2 | assumption)+

theorem evaluate_bet_on_doubles_witness:
  "6 \<le> \<bar>(60::real) - 52\<bar> \<and> \<bar>(30::real) - 34\<bar> \<le> 11 - 1 / 2 ^ 49 \<and>
   bet_qualifies (evaluate_bet (PyFloat (Fin 60)) (PyFloat (Fin 30)) (PyFloat (Fin 34))
     (PyFloat (Fin 52))) = Inr True \<and>
   \<bar>(57::real) - 52\<bar> \<le> 6 - 1 / 2 ^ 50 \<and>
   bet_qualifies (evaluate_bet (PyFloat (Fin 57)) (PyFloat (Fin 30)) (PyFloat (Fin 34))
     (PyFloat (Fin 52))) = Inr False \<and>
   11 \<le> \<bar>(30::real) - 10\<bar> \<and>
   bet_qualifies (evaluate_bet (PyFloat (Fin 60)) (PyFloat (Fin 30)) (PyFloat (Fin 10))
     (PyFloat (Fin 52))) = Inr False"
proof -
  note i1 = evaluate_bet_on_doubles
    [where iv = 60 and h = 30 and a = 34 and l = 52 and hi = 0 and ai = 0 and ivi = 0
      and li = 0]
  note i2 = evaluate_bet_on_doubles
    [where iv = 57 and h = 30 and a = 34 and l = 52 and hi = 0 and ai = 0 and ivi = 0
      and li = 0]
  note i3 = evaluate_bet_on_doubles
    [where iv = 60 and h = 30 and a = 10 and l = 52 and hi = 0 and ai = 0 and ivi = 0
      and li = 0]
  have n1: "6 \<le> \<bar>(60::real) - 52\<bar>" by simp
  have n2: "\<bar>(30::real) - 34\<bar> \<le> 11 - 1 / 2 ^ 49" by simp
  have n3: "\<bar>(57::real) - 52\<bar> \<le> 6 - 1 / 2 ^ 50" by simp
  have n4: "11 \<le> \<bar>(30::real) - 10\<bar>" by simp
  from i1 have "6 \<le> \<bar>(60::real) - 52\<bar> \<longrightarrow> fl_le (Fin 6) (double_abs_diff 60 52)"
    by (elim conjE)
  with n1 have d1: "fl_le (Fin 6) (double_abs_diff 60 52)" by (rule rev_mp)
  from i1 have "\<bar>(30::real) - 34\<bar> \<le> 11 - 1 / 2 ^ 49 \<longrightarrow>
                fl_less (double_abs_diff 30 34) (Fin 11)"
    by (elim conjE)
  with n2 have s1: "fl_less (double_abs_diff 30 34) (Fin 11)" by (rule rev_mp)
  from i2 have "\<bar>(57::real) - 52\<bar> \<le> 6 - 1 / 2 ^ 50 \<longrightarrow>
                \<not> fl_le (Fin 6) (double_abs_diff 57 52)"
    by (elim conjE)
  with n3 have d2: "\<not> fl_le (Fin 6) (double_abs_diff 57 52)" by (rule rev_mp)
  from i3 have "11 \<le> \<bar>(30::real) - 10\<bar> \<longrightarrow> \<not> fl_less (double_abs_diff 30 10) (Fin 11)"
    by (elim conjE)
  with n4 have s3: "\<not> fl_less (double_abs_diff 30 10) (Fin 11)" by (rule rev_mp)
  from i1 have "evaluate_bet (PyFloat (Fin 60)) (PyFloat (Fin 30)) (PyFloat (Fin 34))
                  (PyFloat (Fin 52)) =
     Inr \<lparr>qualifies = (fl_le (Fin 6) (double_abs_diff 60 52) \<and>
                         fl_less (double_abs_diff 30 34) (Fin 11)),
          diff_line = PyFloat (double_abs_diff 60 52),
          score_diff = PyFloat (double_abs_diff 30 34),
          lean = (if (52::real) < 60 then ''OVER'' else if (60::real) < 52 then ''UNDER''
                  else ''NEUTRAL'')\<rparr>"
    by (elim conjE)
  with d1 s1 have q1: "bet_qualifies (evaluate_bet (PyFloat (Fin 60)) (PyFloat (Fin 30))
     (PyFloat (Fin 34)) (PyFloat (Fin 52))) = Inr True"
    by (simp add: bet_qualifies_def)
  from i2 have "evaluate_bet (PyFloat (Fin 57)) (PyFloat (Fin 30)) (PyFloat (Fin 34))
                  (PyFloat (Fin 52)) =
     Inr \<lparr>qualifies = (fl_le (Fin 6) (double_abs_diff 57 52) \<and>
                         fl_less (double_abs_diff 30 34) (Fin 11)),
          diff_line = PyFloat (double_abs_diff 57 52),
          score_diff = PyFloat (double_abs_diff 30 34),
          lean = (if (52::real) < 57 then ''OVER'' else if (57::real) < 52 then ''UNDER''
                  else ''NEUTRAL'')\<rparr>"
    by (elim conjE)
  with d2 have q2: "bet_qualifies (evaluate_bet (PyFloat (Fin 57)) (PyFloat (Fin 30))
     (PyFloat (Fin 34)) (PyFloat (Fin 52))) = Inr False"
    by (simp add: bet_qualifies_def)
  from i3 have "evaluate_bet (PyFloat (Fin 60)) (PyFloat (Fin 30)) (PyFloat (Fin 10))
                  (PyFloat (Fin 52)) =
     Inr \<lparr>qualifies = (fl_le (Fin 6) (double_abs_diff 60 52) \<and>
                         fl_less (double_abs_diff 30 10) (Fin 11)),
          diff_line = PyFloat (double_abs_diff 60 52),
          score_diff = PyFloat (double_abs_diff 30 10),
          lean = (if (52::real) < 60 then ''OVER'' else if (60::real) < 52 then ''UNDER''
                  else ''NEUTRAL'')\<rparr>"
    by (elim conjE)
  with s3 have q3: "bet_qualifies (evaluate_bet (PyFloat (Fin 60)) (PyFloat (Fin 30))
     (PyFloat (Fin 10)) (PyFloat (Fin 52))) = Inr False"
    by (simp add: bet_qualifies_def)
  from n1 n2 q1 n3 q2 n4 q3 show ?thesis by (intro conjI)
qed

text \<open>
  The doubles of 6.1 and 0.1 differ by less than 6, and their difference as computed is
  6.0: the bet qualifies. The doubles of 11.1 and 0.1 differ by less than 11, and their
  difference as computed is 11.0: the bet does not qualify, though the line differs by 10.
\<close>

theorem rounded_difference_counterexample:
  "round_double (61 / 10) = Fin ex_six_point_one \<and> round_double (1 / 10) = Fin ex_point_one \<and>
   round_double (111 / 10) = Fin ex_eleven_point_one \<and>
   is_double ex_six_point_one \<and> is_double ex_point_one \<and> is_double ex_eleven_point_one \<and>
   \<bar>ex_six_point_one - ex_point_one\<bar> < 6 \<and>
   bet_qualifies (evaluate_bet (PyFloat (Fin ex_six_point_one)) (PyFloat (Fin 0)) (PyFloat (Fin 0))
     (PyFloat (Fin ex_point_one))) = Inr True \<and>
   \<bar>ex_eleven_point_one - ex_point_one\<bar> < 11 \<and>
   bet_qualifies (evaluate_bet (PyFloat (Fin 10)) (PyFloat (Fin ex_eleven_point_one))
     (PyFloat (Fin ex_point_one)) (PyFloat (Fin 0))) = Inr False"
  by code_simp

section \<open>The classifier inside the aggregator\<close>

text \<open>
  C2 (as amended). One play never counts both as a free throw and as a field-goal
  attempt: of the two counters \<open>fta\<close> and \<open>fga\<close>, the loop body leaves at least one as
  it was. The turnover block is a separate test and is not part of the exclusion.
\<close>

theorem free_throw_excludes_field_goal:
  "fta (play_step st p) = fta st \<or> fga (play_step st p) = fga st"
  by (simp add: play_step_fta play_step_fga Let_def)

text \<open>
  A description with a shot keyword and a turnover phrase increments both \<open>fga\<close> and
  \<open>turnovers\<close>.
\<close>

theorem turnover_with_field_goal_counterexample:
  "fga (play_step init_counters ex_layup_turnover) = fga init_counters + 1 \<and>
   turnovers (play_step init_counters ex_layup_turnover) = turnovers init_counters + 1"
  by code_simp



text \<open>
  A play without the key keeps the running score, and after a whole sequence of plays the
  running scores are the scores last seen.
\<close>

lemma absent_score_kept:
  "(homeScore p = None \<longrightarrow> last_home_score (play_step st p) = last_home_score st) \<and>
   (visitorScore p = None \<longrightarrow> last_visitor_score (play_step st p) = last_visitor_score st)"
  by (simp add: play_step_last_home play_step_last_visitor)

lemma scores_last_seen:
  "last_home_score (foldl play_step init_counters ps) = last_seen homeScore ps \<and>
   last_visitor_score (foldl play_step init_counters ps) = last_seen visitorScore ps"
  by (simp add: foldl_last_home foldl_last_visitor last_seen_def init_counters_def
        split: list.split)

text \<open>
  C9. A play whose home score is present and null: \<open>dict.get\<close> returns the stored
  \<open>None\<close>, so the running home score of 7 is not carried forward but becomes \<open>None\<close>,
  while the visitor score, whose key is absent, stays 5. The statistics report \<open>None\<close>
  as the home score, and the sum of the two scores then raises \<open>TypeError\<close> out of
  \<open>build_dashboard_rows\<close>.
\<close>

theorem null_score_resets_running_score:
  "last_home_score (foldl play_step init_counters ex_null_score_plays) = JNull \<and>
   last_visitor_score (foldl play_step init_counters ex_null_score_plays) = JInt 5 \<and>
   stats_home (compute_first_half_stats_from_pbp ex_null_score_pbp) = Inr (Some JNull) \<and>
   build_dashboard_rows ex_null_score_world = Inl TypeError"
  by code_simp

section \<open>The name matcher\<close>

text \<open>
  C10. \<open>teams_match_name\<close> is symmetric: both names are normalised, emptiness and
  containment are tested both ways, and the common tokens are an intersection of sets.
\<close>

theorem teams_match_name_symmetric: "teams_match_name a b = teams_match_name b a"
  by (auto simp: teams_match_name_def Let_def Int_commute)

section \<open>The pairing of a game with a market event\<close>

text \<open>An empty name matches nothing, so the test for emptiness changes no answer.\<close>

lemma empty_name_no_match: "\<not> teams_match_name [] t"
  by (simp add: teams_match_name_def normalize_team_name_def)

lemma any_variant_some_variant:
  "any_variant_matches names t = some_variant_matches names t"
proof -
  have "(case n of None \<Rightarrow> False | Some s \<Rightarrow> s \<noteq> [] \<and> teams_match_name s t) =
        (case n of None \<Rightarrow> False | Some s \<Rightarrow> teams_match_name s t)" for n
    using empty_name_no_match by (cases n) auto
  then show ?thesis
    by (simp add: any_variant_matches_def some_variant_matches_def)
qed

lemma find_matching_find:
  "find_matching_odds_event evs hn an = find (event_qualifies hn an) evs"
  by (induction evs) (auto simp: event_qualifies_def Let_def any_variant_some_variant)

lemma find_split:
  "find P xs = Some x \<Longrightarrow> \<exists>pre post. xs = pre @ x # post \<and> P x \<and> (\<forall>y\<in>set pre. \<not> P y)"
proof (induction xs)
  case Nil
  then show ?case by simp
next
  case (Cons a xs)
  show ?case
  proof (cases "P a")
    case True
    with Cons.prems have "a = x" by simp
    with True have "a # xs = [] @ x # xs \<and> P x \<and> (\<forall>y\<in>set []. \<not> P y)" by simp
    then show ?thesis by blast
  next
    case False
    with Cons obtain pre post where "xs = pre @ x # post" "P x" "\<forall>y\<in>set pre. \<not> P y"
      by auto
    with False have "a # xs = (a # pre) @ x # post \<and> P x \<and> (\<forall>y\<in>set (a # pre). \<not> P y)"
      by simp
    then show ?thesis by blast
  qed
qed

text \<open>
  C7. \<open>find_matching_odds_event\<close> returns the first event of the list, in source order,
  that qualifies in the normal or in the swapped alignment, through a variant that is
  present and not empty: it returns no event exactly when none qualifies, and every event
  before the one returned does not qualify.
\<close>

theorem find_matching_first_qualifying:
  "find_matching_odds_event evs hn an = find (event_qualifies hn an) evs \<and>
   (find_matching_odds_event evs hn an = None \<longleftrightarrow> (\<forall>e\<in>set evs. \<not> event_qualifies hn an e)) \<and>
   (\<forall>e. find_matching_odds_event evs hn an = Some e \<longrightarrow>
      (\<exists>pre post. evs = pre @ e # post \<and> event_qualifies hn an e \<and>
                  (\<forall>x\<in>set pre. \<not> event_qualifies hn an x)))"
proof -
  have a: "find_matching_odds_event evs hn an = find (event_qualifies hn an) evs"
    by (rule find_matching_find)
  have b: "find_matching_odds_event evs hn an = None \<longleftrightarrow>
             (\<forall>e\<in>set evs. \<not> event_qualifies hn an e)"
    by (auto simp: a find_None_iff)
  have c: "\<exists>pre post. evs = pre @ e # post \<and> event_qualifies hn an e \<and>
                  (\<forall>x\<in>set pre. \<not> event_qualifies hn an x)"
    if "find_matching_odds_event evs hn an = Some e" for e
    using that unfolding a by (rule find_split)
  show ?thesis using a b c by blast
qed

theorem find_matching_first_qualifying_witness:
  "find_matching_odds_event ex_events ex_home_names ex_away_names = Some (ex_events ! 1) \<and>
   (\<exists>pre post. ex_events = pre @ (ex_events ! 1) # post \<and>
      event_qualifies ex_home_names ex_away_names (ex_events ! 1) \<and>
      (\<forall>x\<in>set pre. \<not> event_qualifies ex_home_names ex_away_names x)) \<and>
   \<not> event_qualifies ex_home_names ex_away_names (ex_events ! 0) \<and>
   event_qualifies ex_home_names ex_away_names (ex_events ! 2)"
proof -
  have f: "find (event_qualifies ex_home_names ex_away_names) ex_events = Some (ex_events ! 1)"
    by code_simp
  have q0: "\<not> event_qualifies ex_home_names ex_away_names (ex_events ! 0)"
    by code_simp
  have q2: "event_qualifies ex_home_names ex_away_names (ex_events ! 2)"
    by code_simp
  note inst = find_matching_first_qualifying [of ex_events ex_home_names ex_away_names]
  from inst have "find_matching_odds_event ex_events ex_home_names ex_away_names =
          find (event_qualifies ex_home_names ex_away_names) ex_events" ..
  with f have r: "find_matching_odds_event ex_events ex_home_names ex_away_names =
                    Some (ex_events ! 1)"
    by simp
  from inst have "\<forall>e. find_matching_odds_event ex_events ex_home_names ex_away_names = Some e \<longrightarrow>
      (\<exists>pre post. ex_events = pre @ e # post \<and> event_qualifies ex_home_names ex_away_names e \<and>
                  (\<forall>x\<in>set pre. \<not> event_qualifies ex_home_names ex_away_names x))"
    by (elim conjE)
  with r have first: "\<exists>pre post. ex_events = pre @ (ex_events ! 1) # post \<and>
      event_qualifies ex_home_names ex_away_names (ex_events ! 1) \<and>
      (\<forall>x\<in>set pre. \<not> event_qualifies ex_home_names ex_away_names x)"
    by blast
  from r first q0 q2 show ?thesis by (intro conjI)
qed

section \<open>The total of a market event\<close>

lemma last_of_snoc:
  "(case ys @ [x] of [] \<Rightarrow> None | b # bs \<Rightarrow> Some (last (b # bs))) = Some x"
  by (cases ys) simp_all

lemma bm_by_key_last:
  "bm_by_key bms k = (case filter (\<lambda>bm. bm_key bm = k) bms of [] \<Rightarrow> None | b # bs \<Rightarrow> Some (last (b # bs)))"
proof (induction bms rule: rev_induct)
  case Nil
  show ?case by (simp add: bm_by_key_def)
next
  case (snoc x xs)
  have step: "bm_by_key (xs @ [x]) = (bm_by_key xs)(bm_key x \<mapsto> x)"
    by (simp add: bm_by_key_def)
  show ?case
  proof (cases "bm_key x = k")
    case True
    then show ?thesis by (simp add: step last_of_snoc del: last.simps)
  next
    case False
    with snoc show ?thesis by (simp add: step)
  qed
qed

lemma scan_markets_first:
  "scan_markets key bm ms =
     (case List.map_filter totals_point ms of [] \<Rightarrow> None | pt # _ \<Rightarrow> Some (pt, or_str (title bm) key))"
  by (induction ms) (auto simp: List.map_filter_simps totals_point_def split: list.splits option.splits)

lemma by_key_quote:
  "(case bm_by_key bms (Some key) of None \<Rightarrow> None | Some bm \<Rightarrow> scan_markets key bm (markets bm)) =
     book_quote bms key"
  by (cases "filter (\<lambda>bm. bm_key bm = Some key) bms")
     (simp_all add: book_quote_def indexed_bookmaker_def bm_by_key_last scan_markets_first)

lemma priority_loop_find:
  "priority_loop (bm_by_key bms) keys =
     (case find (\<lambda>key. book_quote bms key \<noteq> None) keys of
        None \<Rightarrow> (None, None)
      | Some key \<Rightarrow> (map_option fst (book_quote bms key), map_option snd (book_quote bms key)))"
proof (induction keys)
  case Nil
  show ?case by simp
next
  case (Cons key keys)
  show ?case
  proof (cases "bm_by_key bms (Some key)")
    case None
    with by_key_quote [where bms = bms and key = key] have "book_quote bms key = None" by simp
    with None Cons show ?thesis by simp
  next
    case (Some bm)
    with by_key_quote [where bms = bms and key = key] have q: "book_quote bms key = scan_markets key bm (markets bm)"
      by simp
    show ?thesis
      using Some q Cons by (cases "scan_markets key bm (markets bm)") auto
  qed
qed

text \<open>When the keys are pairwise different, the index does not depend on the order of the list.\<close>

lemma filter_key_short:
  "distinct (map f xs) \<Longrightarrow> length (filter (\<lambda>x. f x = k) xs) \<le> 1"
proof (induction xs)
  case Nil
  show ?case by simp
next
  case (Cons x xs)
  show ?case
  proof (cases "f x = k")
    case True
    from Cons.prems have "f x \<notin> f ` set xs" by simp
    with True have "\<forall>y\<in>set xs. f y \<noteq> k" by blast
    then have "filter (\<lambda>y. f y = k) xs = []"
      by (simp add: filter_empty_conv)
    with True show ?thesis by simp
  next
    case False
    with Cons show ?thesis by simp
  qed
qed

lemma short_mset_eq:
  assumes "mset xs = mset ys" and "length ys \<le> 1"
  shows "xs = ys"
proof -
  from assms(1) have len: "length xs = length ys" by (rule mset_eq_length)
  show ?thesis
  proof (cases ys)
    case Nil
    with assms(1) show ?thesis by simp
  next
    case (Cons y ys')
    with assms(2) have ys: "ys = [y]" by simp
    with len obtain x where xs: "xs = [x]" by (cases xs) auto
    from assms(1) xs ys show ?thesis by simp
  qed
qed

lemma bm_by_key_reorder:
  assumes "distinct (map bm_key bms)" and "mset bms' = mset bms"
  shows "bm_by_key bms' = bm_by_key bms"
proof
  fix k
  have "mset (filter (\<lambda>bm. bm_key bm = k) bms') = mset (filter (\<lambda>bm. bm_key bm = k) bms)"
    using assms(2) by simp
  moreover have "length (filter (\<lambda>bm. bm_key bm = k) bms) \<le> 1"
    using assms(1) by (rule filter_key_short)
  ultimately have "filter (\<lambda>bm. bm_key bm = k) bms' = filter (\<lambda>bm. bm_key bm = k) bms"
    by (rule short_mset_eq)
  then show "bm_by_key bms' k = bm_by_key bms k"
    by (simp add: bm_by_key_last)
qed

text \<open>
  C6 (as amended). \<open>extract_full_game_total_with_book\<close> goes through the priority list
  in its order and returns the point and the label of the first key under which the
  event offers a point, (None, None) when there is none; the bookmaker of a key is the
  last one of the list with that key. When the keys of the bookmakers are pairwise
  different, the result is the same for every reordering of the list. With FanDuel at
  144.5 before DraftKings at 145 it returns 145 and the DraftKings title.
\<close>

theorem extract_priority_first:
  "extract_full_game_total_with_book ev =
     (case find (\<lambda>key. book_quote (bookmakers ev) key \<noteq> None) BOOKMAKER_PRIORITY of
        None \<Rightarrow> (None, None)
      | Some key \<Rightarrow> (map_option fst (book_quote (bookmakers ev) key),
                     map_option snd (book_quote (bookmakers ev) key))) \<and>
   (distinct (map bm_key (bookmakers ev)) \<longrightarrow>
      (\<forall>bms. mset bms = mset (bookmakers ev) \<longrightarrow>
         extract_full_game_total_with_book (ev\<lparr>bookmakers := bms\<rparr>) =
         extract_full_game_total_with_book ev)) \<and>
   extract_full_game_total_with_book (event_of ''Duke'' ''UNC'' [ex_fanduel, ex_draftkings]) =
     (Some 145, Some ''DraftKings'')"
proof (intro conjI impI allI)
  show "extract_full_game_total_with_book ev =
     (case find (\<lambda>key. book_quote (bookmakers ev) key \<noteq> None) BOOKMAKER_PRIORITY of
        None \<Rightarrow> (None, None)
      | Some key \<Rightarrow> (map_option fst (book_quote (bookmakers ev) key),
                     map_option snd (book_quote (bookmakers ev) key)))"
    by (simp add: extract_full_game_total_with_book_def priority_loop_find)
next
  fix bms
  assume "distinct (map bm_key (bookmakers ev))" and "mset bms = mset (bookmakers ev)"
  then have "bm_by_key bms = bm_by_key (bookmakers ev)"
    by (rule bm_by_key_reorder)
  then show "extract_full_game_total_with_book (ev\<lparr>bookmakers := bms\<rparr>) =
         extract_full_game_total_with_book ev"
    by (simp add: extract_full_game_total_with_book_def)
next
  show "extract_full_game_total_with_book (event_of ''Duke'' ''UNC'' [ex_fanduel, ex_draftkings]) =
     (Some 145, Some ''DraftKings'')"
    by code_simp
qed

theorem extract_priority_first_witness:
  "distinct (map bm_key [ex_fanduel, ex_draftkings]) \<and>
   mset [ex_draftkings, ex_fanduel] = mset [ex_fanduel, ex_draftkings] \<and>
   extract_full_game_total_with_book (event_of ''Duke'' ''UNC'' [ex_draftkings, ex_fanduel]) =
     (Some 145, Some ''DraftKings'')"
proof -
  let ?ev = "event_of ''Duke'' ''UNC'' [ex_fanduel, ex_draftkings]"
  have d: "distinct (map bm_key (bookmakers ?ev))"
    by code_simp
  have m: "mset [ex_draftkings, ex_fanduel] = mset (bookmakers ?ev)"
    by (simp add: event_of_def)
  have u: "?ev\<lparr>bookmakers := [ex_draftkings, ex_fanduel]\<rparr> =
           event_of ''Duke'' ''UNC'' [ex_draftkings, ex_fanduel]"
    by (simp add: event_of_def)
  have b: "bookmakers ?ev = [ex_fanduel, ex_draftkings]"
    by (simp add: event_of_def)
  note inst = extract_priority_first [of ?ev]
  from inst have ord: "distinct (map bm_key (bookmakers ?ev)) \<longrightarrow>
      (\<forall>bms. mset bms = mset (bookmakers ?ev) \<longrightarrow>
         extract_full_game_total_with_book (?ev\<lparr>bookmakers := bms\<rparr>) =
         extract_full_game_total_with_book ?ev)"
    by (elim conjE)
  from inst have val: "extract_full_game_total_with_book ?ev = (Some 145, Some ''DraftKings'')"
    by (elim conjE)
  from ord d m have "extract_full_game_total_with_book (?ev\<lparr>bookmakers := [ex_draftkings, ex_fanduel]\<rparr>) =
          extract_full_game_total_with_book ?ev"
    by blast
  with val have r: "extract_full_game_total_with_book (event_of ''Duke'' ''UNC'' [ex_draftkings, ex_fanduel]) =
          (Some 145, Some ''DraftKings'')"
    unfolding u by simp
  from d have d': "distinct (map bm_key [ex_fanduel, ex_draftkings])"
    unfolding b .
  from m have m': "mset [ex_draftkings, ex_fanduel] = mset [ex_fanduel, ex_draftkings]"
    unfolding b .
  from d' m' r show ?thesis by (intro conjI)
qed

text \<open>
  The first bookmaker present need not be the one that answers: DraftKings without a
  totals market leaves the answer to FanDuel. And two bookmakers under one key make the
  result depend on their order.
\<close>

theorem extract_first_present_counterexample:
  "bm_by_key (bookmakers ex_fall_through) (Some ''draftkings'') = Some ex_draftkings_no_totals \<and>
   extract_full_game_total_with_book ex_fall_through = (Some 144.5, Some ''FanDuel'') \<and>
   extract_full_game_total_with_book (event_of ''Duke'' ''UNC'' [ex_draftkings, ex_draftkings_other]) \<noteq>
   extract_full_game_total_with_book (event_of ''Duke'' ''UNC'' [ex_draftkings_other, ex_draftkings])"
  by code_simp

section \<open>The filter on the period label\<close>

lemma rows_loop_append:
  "rows_loop http_get odds_games (xs @ ys) rows =
     (case rows_loop http_get odds_games xs rows of
        Inl e \<Rightarrow> Inl e
      | Inr rows' \<Rightarrow> rows_loop http_get odds_games ys rows')"
  by (induction xs arbitrary: rows) (auto split: sum.splits option.splits)

lemma game_row_filtered:
  assumes "\<not> is_first_half (period_clean g)" and "\<not> is_halftime (period_clean g)"
  shows "game_row http_get odds_games g = Inr None"
  using assms by (simp add: game_row_def Let_def)

text \<open>
  C8 (as amended). A game whose cleaned period label contains "FINAL" or "OT" and does
  not contain "HALF" gets no row, whether or not the label contains "1": the loop body
  skips it, and the rows and the error of the whole refresh are those of the scoreboard
  without this game.
\<close>

theorem final_or_overtime_excluded:
  assumes "str_contains ''FINAL'' (period_clean g) \<or> str_contains ''OT'' (period_clean g)"
      and "\<not> str_contains ''HALF'' (period_clean g)"
  shows "game_row http_get odds_games g = Inr None \<and>
         rows_loop http_get odds_games (before @ g # after) rows =
           rows_loop http_get odds_games (before @ after) rows \<and>
         build_dashboard_rows (w\<lparr>scoreboard := Inr (before @ g # after)\<rparr>) =
           build_dashboard_rows (w\<lparr>scoreboard := Inr (before @ after)\<rparr>)"
proof -
  from assms have nf: "\<not> is_first_half (period_clean g)"
    by (auto simp: is_first_half_def)
  from assms(2) have nh: "\<not> is_halftime (period_clean g)"
    by (simp add: is_halftime_def)
  have skip: "game_row hg og g = Inr None" for hg og
    using nf nh by (rule game_row_filtered)
  have loop: "rows_loop hg og (before @ g # after) rs = rows_loop hg og (before @ after) rs"
    for hg og rs
    by (simp add: rows_loop_append skip split: sum.split)
  show ?thesis
    by (simp add: skip loop build_dashboard_rows_def split: sum.split)
qed

theorem final_or_overtime_excluded_witness:
  "str_contains ''OT'' (period_clean ex_game_overtime) \<and>
   str_contains ''1'' (period_clean ex_game_overtime) \<and>
   \<not> str_contains ''HALF'' (period_clean ex_game_overtime) \<and>
   game_row ex_http [] ex_game_overtime = Inr None \<and>
   row_labels (build_dashboard_rows (world_of [ex_game_overtime, ex_game_good])) =
     Inr ([''Kansas @ Baylor''], None)"
proof -
  have ot: "str_contains ''OT'' (period_clean ex_game_overtime)"
    by code_simp
  have one: "str_contains ''1'' (period_clean ex_game_overtime)"
    by code_simp
  have nh: "\<not> str_contains ''HALF'' (period_clean ex_game_overtime)"
    by code_simp
  have rest: "row_labels (build_dashboard_rows (world_of [ex_game_good])) =
                Inr ([''Kansas @ Baylor''], None)"
    by code_simp
  have w1: "(world_of [])\<lparr>scoreboard := Inr ([] @ ex_game_overtime # [ex_game_good])\<rparr> =
              world_of [ex_game_overtime, ex_game_good]"
    by (simp add: world_of_def)
  have w2: "(world_of [])\<lparr>scoreboard := Inr ([] @ [ex_game_good])\<rparr> = world_of [ex_game_good]"
    by (simp add: world_of_def)
  from ot have h1: "str_contains ''FINAL'' (period_clean ex_game_overtime) \<or>
                    str_contains ''OT'' (period_clean ex_game_overtime)" ..
  note inst = final_or_overtime_excluded [OF h1 nh, of ex_http "[]" "[]" "[ex_game_good]" "[]" "world_of []"]
  from inst have skip: "game_row ex_http [] ex_game_overtime = Inr None" ..
  from inst have "build_dashboard_rows ((world_of [])\<lparr>scoreboard := Inr ([] @ ex_game_overtime # [ex_game_good])\<rparr>) =
                 build_dashboard_rows ((world_of [])\<lparr>scoreboard := Inr ([] @ [ex_game_good])\<rparr>)"
    by (elim conjE)
  then have same: "build_dashboard_rows (world_of [ex_game_overtime, ex_game_good]) =
                   build_dashboard_rows (world_of [ex_game_good])"
    unfolding w1 w2 .
  from rest same have labels: "row_labels (build_dashboard_rows (world_of [ex_game_overtime, ex_game_good])) =
     Inr ([''Kansas @ Baylor''], None)"
    by (rule ssubst [where P = "\<lambda>x. row_labels x = Inr ([''Kansas @ Baylor''], None)", rotated])
  from ot one nh skip labels show ?thesis by (intro conjI)
qed

text \<open>A label that contains "OT" and also "HALF" passes the halftime test; the row is built.\<close>

theorem halftime_overtime_label_counterexample:
  "str_contains ''OT'' (period_clean ex_game_half_ot) \<and>
   row_labels (build_dashboard_rows (world_of [ex_game_half_ot])) = Inr ([''Kansas @ Baylor''], None)"
  by code_simp

section \<open>Failures of the play-by-play source\<close>

text \<open>A request that fails, and a response with an error status, give \<open>None\<close>.\<close>

lemma request_failure_is_unavailable:
  assumes "path \<noteq> []"
      and "http_get (NCAA_BASE_URL @ path @ ''/play-by-play'') = RequestFailed \<or>
           (\<exists>status b. http_get (NCAA_BASE_URL @ path @ ''/play-by-play'') = Response status b \<and>
                        400 \<le> status \<and> status < 600)"
  shows "get_game_play_by_play http_get (Some path) = Inr None"
  using assms by (auto simp: get_game_play_by_play_def)

text \<open>
  C3. A response whose body is not JSON: \<open>resp.json()\<close> stands after the \<open>try\<close> block,
  so the exception leaves \<open>get_game_play_by_play\<close>, and with it
  \<open>build_dashboard_rows\<close>: the second game, which alone gives a row, is not processed.
\<close>

theorem parse_failure_escapes:
  "get_game_play_by_play ex_http (Some ''/game/1'') = Inl JSONDecodeError \<and>
   build_dashboard_rows (world_of [ex_game_bad_body, ex_game_good]) = Inl JSONDecodeError \<and>
   row_labels (build_dashboard_rows (world_of [ex_game_good])) = Inr ([''Kansas @ Baylor''], None)"
  by code_simp

section \<open>Normalisation of team names\<close>

text \<open>
  C5. The noise entry "st." is compiled as a pattern, where the dot stands for any
  character: a token of three characters that starts with "st" is removed, which the
  normalisation of the specification keeps. On "Ohio State University" both agree.
\<close>

theorem three_letter_token_dropped:
  "normalize_team_name ''Sta Clara'' = ''clara'' \<and> normalize_spec ''Sta Clara'' = ''sta clara'' \<and>
   normalize_team_name ''Ohio State University'' = ''ohio''"
  by code_simp

end
